theory Spec2Isabelle
  imports Complex_Main "HOL-Library.Word"
begin

unbundle bit_operations_syntax

section \<open>Machine integers\<close>

text \<open>
  Go's \<open>int64\<close> is a 64-bit word read as a signed number: \<open>+\<close>, \<open>-\<close> and unary minus
  wrap around, comparisons are the signed ones (\<open><s\<close>, \<open>\<le>s\<close>). \<open>uint8\<close> is an 8-bit word.
\<close>

type_synonym int64 = "64 word"
type_synonym uint8 = "8 word"

section \<open>Player state and the seek heuristic (internal/player/player.go)\<close>

text \<open>
  A \<open>time.Time\<close> is modelled by the number of nanoseconds since Go's zero instant
  (January 1, year 1, 00:00:00 UTC), so that \<open>IsZero\<close> is equality with 0. A
  \<open>time.Duration\<close> is a signed 64-bit count of nanoseconds; \<open>Time.Sub\<close> saturates at the
  ends of that range, as the Go library does.
\<close>

type_synonym Time = int
type_synonym Duration = int

definition IsZero :: "Time \<Rightarrow> bool" where
  "IsZero t = (t = 0)"

definition Sub :: "Time \<Rightarrow> Time \<Rightarrow> Duration" where
  "Sub t u = max (- (2 ^ 63)) (min (2 ^ 63 - 1) (t - u))"

text \<open>\<open>time.Since(t)\<close> is \<open>time.Now().Sub(t)\<close>; the reading of the clock is the argument \<open>now\<close>.\<close>

definition Since :: "Time \<Rightarrow> Time \<Rightarrow> Duration" where
  "Since now t = Sub now t"

text \<open>
  \<open>int64(elapsed.Seconds())\<close>: \<open>Duration.Seconds\<close> returns the duration in seconds as a
  float64 and the conversion to \<open>int64\<close> drops the fraction (rounds toward zero). The model
  computes with the exact quotient; the float64 sum \<open>sec + nsec/1e9\<close> has the same integer
  part as long as the duration is below \<open>2^24\<close> seconds (about 194 days), which is the range
  the theorems below are stated for.
\<close>

definition SecondsInt64 :: "Duration \<Rightarrow> int64" where
  "SecondsInt64 d = word_of_int (sgn d * (\<bar>d\<bar> div 1000000000))"

record 'track State =
  Track :: "'track option"
  PositionSecs :: int64
  Playing :: bool
  lastPositionUpdate :: Time
  lastPositionSecs :: int64

definition DetectSeek :: "'track State \<Rightarrow> int64 \<Rightarrow> Time \<Rightarrow> bool" where
  "DetectSeek s newPosition now =
     (if IsZero (lastPositionUpdate s) then False
      else
        let elapsed = Since now (lastPositionUpdate s);
            expectedPos = lastPositionSecs s + SecondsInt64 elapsed;
            diff = newPosition - expectedPos;
            diff' = (if diff <s 0 then - diff else diff)
        in 3 <s diff')"

definition UpdatePosition :: "'track State \<Rightarrow> int64 \<Rightarrow> Time \<Rightarrow> 'track State" where
  "UpdatePosition s pos now =
     s\<lparr>PositionSecs := pos, lastPositionSecs := pos, lastPositionUpdate := now\<rparr>"

text \<open>The zero value \<open>State{}\<close> that \<open>NewService\<close> allocates.\<close>

definition zeroState :: "'track State" where
  "zeroState = \<lparr>Track = None, PositionSecs = 0, Playing = False,
                 lastPositionUpdate = 0, lastPositionSecs = 0\<rparr>"

datatype service_error = ErrNilDbusConnection | ErrEmptyMprisServiceName

record ('bus, 'track) Service =
  bus :: 'bus
  service :: string
  eventChanCap :: nat
  state :: "'track State"

definition NewService :: "'bus option \<Rightarrow> string \<Rightarrow> service_error + ('bus, 'track) Service" where
  "NewService b mprisService =
     (case b of
        None \<Rightarrow> Inl ErrNilDbusConnection
      | Some conn \<Rightarrow>
          if mprisService = [] then Inl ErrEmptyMprisServiceName
          else Inr \<lparr>bus = conn, service = mprisService, eventChanCap = 16, state = zeroState\<rparr>)"

text \<open>
  The seek rule as the specification words it: the actual position differs from
  \<open>lastPosition + elapsed\<close> by more than three seconds, with the elapsed wall-clock time taken
  as it is (not rounded). Positions are whole seconds and the elapsed time is in
  nanoseconds, so both sides are scaled to nanoseconds.
\<close>

definition spec_seek :: "int \<Rightarrow> int \<Rightarrow> int \<Rightarrow> bool" where
  "spec_seek p0 elapsed_ns a =
     (\<bar>a * 1000000000 - (p0 * 1000000000 + elapsed_ns)\<bar> > 3 * 1000000000)"

section \<open>Strings and hashing used by the cache key\<close>

text \<open>
  Go strings are byte sequences; a \<open>string\<close> here is the list of those bytes. The
  functions of package \<open>strings\<close> are modelled on bytes. Where Go consults the Unicode
  tables for a string that is not pure ASCII (\<open>strings.Map(unicode.ToLower, s)\<close> and
  \<open>strings.Map(unicode.ToUpper, s)\<close>), the tables are a parameter of the model, the
  record \<open>unicode\<close>; the ASCII paths are written out as in the Go library.
\<close>

record unicode =
  MapToLower :: "string \<Rightarrow> string"
  MapToUpper :: "string \<Rightarrow> string"

definition isASCII :: "string \<Rightarrow> bool" where
  "isASCII s = list_all (\<lambda>c. (of_char c :: nat) < 128) s"

definition isUpperASCII :: "char \<Rightarrow> bool" where
  "isUpperASCII c = (65 \<le> (of_char c :: nat) \<and> (of_char c :: nat) \<le> 90)"

definition isLowerASCII :: "char \<Rightarrow> bool" where
  "isLowerASCII c = (97 \<le> (of_char c :: nat) \<and> (of_char c :: nat) \<le> 122)"

definition lowerASCII :: "char \<Rightarrow> char" where
  "lowerASCII c = (if isUpperASCII c then char_of ((of_char c :: nat) + 32) else c)"

definition upperASCII :: "char \<Rightarrow> char" where
  "upperASCII c = (if isLowerASCII c then char_of ((of_char c :: nat) - 32) else c)"

text \<open>\<open>strings.ToLower\<close> and \<open>strings.ToUpper\<close>: the ASCII fast path, else the Unicode mapping.\<close>

definition ToLower :: "unicode \<Rightarrow> string \<Rightarrow> string" where
  "ToLower U s =
     (if isASCII s then (if \<not> list_ex isUpperASCII s then s else map lowerASCII s)
      else MapToLower U s)"

definition ToUpper :: "unicode \<Rightarrow> string \<Rightarrow> string" where
  "ToUpper U s =
     (if isASCII s then (if \<not> list_ex isLowerASCII s then s else map upperASCII s)
      else MapToUpper U s)"

text \<open>
  An instance of the tables in which no character outside ASCII has a case mapping; it is
  used to evaluate the model on concrete ASCII inputs, where the tables are not consulted.
\<close>

definition asciiTables :: unicode where
  "asciiTables = \<lparr>MapToLower = map lowerASCII, MapToUpper = map upperASCII\<rparr>"

text \<open>
  \<open>crypto/sha256\<close>: \<open>Sum256\<close> is SHA-256 (FIPS 180-4) on bytes, giving the 32 bytes of the
  digest; \<open>encoding/hex\<close>: \<open>EncodeToString\<close> writes two lower-case hexadecimal digits per
  byte.
\<close>

type_synonym uint32 = "32 word"

definition byte_of_char :: "char \<Rightarrow> uint8" where
  "byte_of_char c = word_of_nat (of_char c)"

definition bytes_of :: "string \<Rightarrow> uint8 list" where
  "bytes_of s = map byte_of_char s"

definition sha256_K :: "uint32 list" where
  "sha256_K =
   [1116352408, 1899447441, 3049323471, 3921009573, 961987163, 1508970993, 2453635748, 2870763221,
    3624381080, 310598401, 607225278, 1426881987, 1925078388, 2162078206, 2614888103, 3248222580,
    3835390401, 4022224774, 264347078, 604807628, 770255983, 1249150122, 1555081692, 1996064986,
    2554220882, 2821834349, 2952996808, 3210313671, 3336571891, 3584528711, 113926993, 338241895,
    666307205, 773529912, 1294757372, 1396182291, 1695183700, 1986661051, 2177026350, 2456956037,
    2730485921, 2820302411, 3259730800, 3345764771, 3516065817, 3600352804, 4094571909, 275423344,
    430227734, 506948616, 659060556, 883997877, 958139571, 1322822218, 1537002063, 1747873779,
    1955562222, 2024104815, 2227730452, 2361852424, 2428436474, 2756734187, 3204031479, 3329325298]"

type_synonym sha_state = "uint32 \<times> uint32 \<times> uint32 \<times> uint32 \<times> uint32 \<times> uint32 \<times> uint32 \<times> uint32"

definition sha256_init :: sha_state where
  "sha256_init = (1779033703, 3144134277, 1013904242, 2773480762,
                  1359893119, 2600822924, 528734635, 1541459225)"

definition be_bytes32 :: "uint32 \<Rightarrow> uint8 list" where
  "be_bytes32 w = [ucast (drop_bit 24 w), ucast (drop_bit 16 w), ucast (drop_bit 8 w), ucast w]"

definition be_bytes64 :: "64 word \<Rightarrow> uint8 list" where
  "be_bytes64 w = be_bytes32 (ucast (drop_bit 32 w)) @ be_bytes32 (ucast w)"

definition sha256_pad :: "uint8 list \<Rightarrow> uint8 list" where
  "sha256_pad m =
     m @ [128] @ replicate ((119 - length m mod 64) mod 64) 0 @ be_bytes64 (word_of_nat (8 * length m))"

fun be_words :: "uint8 list \<Rightarrow> uint32 list" where
  "be_words (a # b # c # d # r) =
     (push_bit 24 (ucast a) OR push_bit 16 (ucast b) OR push_bit 8 (ucast c) OR ucast d) # be_words r"
| "be_words _ = []"

definition ssig0 :: "uint32 \<Rightarrow> uint32" where
  "ssig0 x = word_rotr 7 x XOR word_rotr 18 x XOR drop_bit 3 x"
definition ssig1 :: "uint32 \<Rightarrow> uint32" where
  "ssig1 x = word_rotr 17 x XOR word_rotr 19 x XOR drop_bit 10 x"
definition bsig0 :: "uint32 \<Rightarrow> uint32" where
  "bsig0 x = word_rotr 2 x XOR word_rotr 13 x XOR word_rotr 22 x"
definition bsig1 :: "uint32 \<Rightarrow> uint32" where
  "bsig1 x = word_rotr 6 x XOR word_rotr 11 x XOR word_rotr 25 x"

primrec sha256_schedule :: "nat \<Rightarrow> uint32 list \<Rightarrow> uint32 list" where
  "sha256_schedule 0 w = w"
| "sha256_schedule (Suc n) w =
     sha256_schedule n
       (w @ [ssig1 (w ! (length w - 2)) + w ! (length w - 7)
             + ssig0 (w ! (length w - 15)) + w ! (length w - 16)])"

definition sha256_round :: "sha_state \<Rightarrow> uint32 \<times> uint32 \<Rightarrow> sha_state" where
  "sha256_round st kw =
     (case st of (a, b, c, d, e, f, g, h) \<Rightarrow>
        let t1 = h + bsig1 e + ((e AND f) XOR (NOT e AND g)) + fst kw + snd kw;
            t2 = bsig0 a + ((a AND b) XOR (a AND c) XOR (b AND c))
        in (t1 + t2, a, b, c, d + t1, e, f, g))"

definition sha256_block :: "sha_state \<Rightarrow> uint32 list \<Rightarrow> sha_state" where
  "sha256_block st ws =
     (case st of (a, b, c, d, e, f, g, h) \<Rightarrow>
      case foldl sha256_round st (zip sha256_K (sha256_schedule 48 ws)) of
        (a', b', c', d', e', f', g', h') \<Rightarrow>
          (a + a', b + b', c + c', d + d', e + e', f + f', g + g', h + h'))"

primrec sha256_blocks :: "nat \<Rightarrow> sha_state \<Rightarrow> uint32 list \<Rightarrow> sha_state" where
  "sha256_blocks 0 st ws = st"
| "sha256_blocks (Suc n) st ws = sha256_blocks n (sha256_block st (take 16 ws)) (drop 16 ws)"

definition Sum256 :: "uint8 list \<Rightarrow> uint8 list" where
  "Sum256 m =
     (let ws = be_words (sha256_pad m) in
      case sha256_blocks (length ws div 16) sha256_init ws of
        (a, b, c, d, e, f, g, h) \<Rightarrow>
          concat (map be_bytes32 [a, b, c, d, e, f, g, h]))"

definition hexdigit :: "nat \<Rightarrow> char" where
  "hexdigit n = ''0123456789abcdef'' ! (n mod 16)"

definition EncodeToString :: "uint8 list \<Rightarrow> string" where
  "EncodeToString bs = concat (map (\<lambda>b. [hexdigit (unat b div 16), hexdigit (unat b)]) bs)"

section \<open>The lyric cache (internal/cache/cache.go)\<close>

definition cacheVersion :: uint8 where
  "cacheVersion = 1"

definition defaultTTLDays :: int where
  "defaultTTLDays = 30"

datatype cache_error = ErrCacheMiss | ErrCacheExpired | ErrCacheCorrupt | ErrInvalidCacheEntry | ErrIO

text \<open>The float64 fields are only stored and copied; they are modelled as reals.\<close>

record LyricEntry =
  Version :: uint8
  TrackName :: string
  ArtistName :: string
  AlbumName :: string
  Duration :: real
  Instrumental :: bool
  PlainLyrics :: string
  SyncedLyrics :: string
  SyncOffset :: real
  CreatedAt :: int64
  ExpiresAt :: int64

text \<open>
  The memory tier is the map \<open>memCache\<close>. It holds pointers in Go; the model holds the
  entries themselves, so a caller that keeps and later mutates the pointer it passed to
  \<open>Set\<close> or got from \<open>Get\<close> is outside the model.
\<close>

record DiskCache =
  basePath :: string
  memCache :: "string \<rightharpoonup> LyricEntry"

text \<open>
  The file tier is the file system, a map from paths to files. A file is either one that
  cannot be opened (\<open>os.Open\<close> fails with an error other than not-exist), one whose content
  the gob decoder rejects, or one whose content decodes to an entry. A path with no file
  is \<open>None\<close>.
\<close>

datatype disk_file = Unreadable | Garbage | Gob LyricEntry

type_synonym filesystem = "string \<rightharpoonup> disk_file"

text \<open>
  \<open>filepath.Join\<close> of a clean, non-empty directory path and a plain file name.
\<close>

definition Join :: "string \<Rightarrow> string \<Rightarrow> string" where
  "Join d name = d @ ''/'' @ name"

definition generateKey :: "unicode \<Rightarrow> string \<Rightarrow> string \<Rightarrow> string" where
  "generateKey U artist title =
     (let normalized = ToLower U artist @ ''|'' @ ToLower U title;
          hash = Sum256 (bytes_of normalized)
      in EncodeToString (take 12 hash))"

definition getFilePath :: "DiskCache \<Rightarrow> string \<Rightarrow> string" where
  "getFilePath c key = (if basePath c = [] then [] else Join (basePath c) (key @ ''.bin''))"

text \<open>
  \<open>os.Remove\<close>, whose error the cache ignores: \<open>ok\<close> tells whether the operating system
  carries the removal out.
\<close>

definition Remove :: "filesystem \<Rightarrow> string \<Rightarrow> bool \<Rightarrow> filesystem" where
  "Remove fs path ok = (if ok then fs(path := None) else fs)"

definition readFromDisk ::
  "filesystem \<Rightarrow> string \<Rightarrow> bool \<Rightarrow> (cache_error + LyricEntry) \<times> filesystem" where
  "readFromDisk fs filePath rmOk =
     (case fs filePath of
        None \<Rightarrow> (Inl ErrCacheMiss, fs)
      | Some Unreadable \<Rightarrow> (Inl ErrIO, fs)
      | Some Garbage \<Rightarrow> (Inl ErrCacheCorrupt, fs)
      | Some (Gob entry) \<Rightarrow>
          if Version entry \<noteq> cacheVersion
          then (Inl ErrCacheCorrupt, Remove fs filePath rmOk)
          else (Inr entry, fs))"

text \<open>
  The second half of \<open>Get\<close> (from the comment ``fall back to disk cache''), reached when
  the memory tier has no unexpired entry; \<open>now\<close> is the clock reading of the expiry check.
\<close>

definition Get_disk ::
  "DiskCache \<Rightarrow> filesystem \<Rightarrow> string \<Rightarrow> int64 \<Rightarrow> bool
     \<Rightarrow> (cache_error + LyricEntry) \<times> DiskCache \<times> filesystem" where
  "Get_disk c fs key now rmOk =
     (if basePath c = [] then (Inl ErrCacheMiss, c, fs)
      else
        let filePath = getFilePath c key in
        case readFromDisk fs filePath rmOk of
          (Inl err, fs') \<Rightarrow> (Inl err, c, fs')
        | (Inr entry, fs') \<Rightarrow>
            if ExpiresAt entry \<le>s now
            then (Inl ErrCacheExpired, c, Remove fs' filePath rmOk)
            else (Inr entry, c\<lparr>memCache := (memCache c)(key \<mapsto> entry)\<rparr>, fs'))"

text \<open>
  \<open>Get\<close> reads the clock up to twice: \<open>now1\<close> at the memory-tier check and \<open>now2\<close> at the
  file-tier check. It returns the result, the cache and the file system after the call.
\<close>

definition Get ::
  "unicode \<Rightarrow> DiskCache \<Rightarrow> filesystem \<Rightarrow> string \<Rightarrow> string \<Rightarrow> int64 \<Rightarrow> int64 \<Rightarrow> bool
     \<Rightarrow> (cache_error + LyricEntry) \<times> DiskCache \<times> filesystem" where
  "Get U c fs artist title now1 now2 rmOk =
     (if artist = [] \<or> title = [] then (Inl ErrCacheMiss, c, fs)
      else
        let key = generateKey U artist title in
        case memCache c key of
          Some entry \<Rightarrow>
            if now1 <s ExpiresAt entry then (Inr entry, c, fs)
            else Get_disk (c\<lparr>memCache := (memCache c)(key := None)\<rparr>) fs key now2 rmOk
        | None \<Rightarrow> Get_disk c fs key now2 rmOk)"

text \<open>
  \<open>writeToDisk\<close> writes a temporary file and renames it over the destination. The outcome
  of its system calls is the argument \<open>w\<close>: the first call that fails, or none.
\<close>

datatype write_outcome = CreateFails | EncodeFails | SyncFails | CloseFails | RenameFails | WriteOk

definition writeToDisk ::
  "filesystem \<Rightarrow> string \<Rightarrow> LyricEntry \<Rightarrow> write_outcome \<Rightarrow> cache_error option \<times> filesystem" where
  "writeToDisk fs filePath entry w =
     (let tmpPath = filePath @ ''.tmp'' in
      case w of
        CreateFails \<Rightarrow> (Some ErrIO, fs)
      | EncodeFails \<Rightarrow> (Some ErrIO, fs(tmpPath := None))
      | SyncFails \<Rightarrow> (Some ErrIO, fs(tmpPath := None))
      | CloseFails \<Rightarrow> (Some ErrIO, fs(tmpPath := None))
      | RenameFails \<Rightarrow> (Some ErrIO, fs(tmpPath \<mapsto> Gob entry))
      | WriteOk \<Rightarrow> (None, (fs(tmpPath := None))(filePath \<mapsto> Gob entry)))"

text \<open>
  \<open>Set\<close>: the entry is a pointer that may be nil, hence an option; \<open>now\<close> is the reading
  of \<open>time.Now().Unix()\<close>. The result is the error, if any, with the cache and the file
  system after the call.
\<close>

definition Set ::
  "unicode \<Rightarrow> DiskCache \<Rightarrow> filesystem \<Rightarrow> string \<Rightarrow> string \<Rightarrow> LyricEntry option \<Rightarrow> int64
     \<Rightarrow> write_outcome \<Rightarrow> cache_error option \<times> DiskCache \<times> filesystem" where
  "Set U c fs artist title entry now w =
     (case entry of
        None \<Rightarrow> (Some ErrInvalidCacheEntry, c, fs)
      | Some e \<Rightarrow>
          if artist = [] \<or> title = [] then (Some ErrInvalidCacheEntry, c, fs)
          else
            let key = generateKey U artist title;
                e' = e\<lparr>Version := cacheVersion, CreatedAt := now,
                       ExpiresAt := now + word_of_int (defaultTTLDays * 24 * 60 * 60)\<rparr>;
                c' = c\<lparr>memCache := (memCache c)(key \<mapsto> e')\<rparr>
            in if basePath c = [] then (None, c', fs)
               else (case writeToDisk fs (getFilePath c key) e' w of
                       (err, fs') \<Rightarrow> (err, c', fs')))"

text \<open>
  The stamping invariant of the data model: the expiry is the creation time plus thirty
  days and the version is the current one; and a cache all of whose entries, in memory
  and in decodable files, satisfy it.
\<close>

definition stamped :: "LyricEntry \<Rightarrow> bool" where
  "stamped e = (ExpiresAt e = CreatedAt e + 2592000 \<and> Version e = cacheVersion)"

definition cache_inv :: "DiskCache \<Rightarrow> filesystem \<Rightarrow> bool" where
  "cache_inv c fs =
     ((\<forall>k e. memCache c k = Some e \<longrightarrow> stamped e) \<and> (\<forall>p e. fs p = Some (Gob e) \<longrightarrow> stamped e))"

text \<open>Concrete values used to run the model.\<close>

definition exampleEntry :: LyricEntry where
  "exampleEntry = \<lparr>Version = 0, TrackName = ''T'', ArtistName = ''A'', AlbumName = ''Al'',
     Duration = 200, Instrumental = False, PlainLyrics = ''la'', SyncedLyrics = ''[00:01.50]la'',
     SyncOffset = 0, CreatedAt = 0, ExpiresAt = 0\<rparr>"

definition exampleCache :: DiskCache where
  "exampleCache = \<lparr>basePath = ''/home/u/.cache/lyric-shower/lyrics'', memCache = Map.empty\<rparr>"

definition degradedCache :: DiskCache where
  "degradedCache = \<lparr>basePath = [], memCache = Map.empty\<rparr>"

definition exampleKey :: string where
  "exampleKey = generateKey asciiTables ''A'' ''T''"

definition examplePath :: string where
  "examplePath = getFilePath exampleCache exampleKey"

definition staleEntry :: LyricEntry where
  "staleEntry = exampleEntry\<lparr>Version := 1, CreatedAt := 0, ExpiresAt := 2592000\<rparr>"

definition freshEntry :: LyricEntry where
  "freshEntry = exampleEntry\<lparr>Version := 1, CreatedAt := 1700000000, ExpiresAt := 1702592000\<rparr>"


section \<open>Timed lyric lines (internal/player/player.go)\<close>

text \<open>
  \<open>strings.TrimSpace\<close> removes leading and trailing white space as Unicode defines it: the
  six ASCII characters and the UTF-8 encodings of U+0085, U+00A0, U+1680, U+2000 to
  U+200A, U+2028, U+2029, U+202F, U+205F and U+3000.
\<close>

definition whiteSpace :: "nat list list" where
  "whiteSpace =
     [[9], [10], [11], [12], [13], [32], [194, 133], [194, 160], [225, 154, 128],
      [226, 128, 128], [226, 128, 129], [226, 128, 130], [226, 128, 131], [226, 128, 132],
      [226, 128, 133], [226, 128, 134], [226, 128, 135], [226, 128, 136], [226, 128, 137],
      [226, 128, 138], [226, 128, 168], [226, 128, 169], [226, 128, 175], [226, 129, 159],
      [227, 128, 128]]"

definition hasPrefixCodes :: "nat list \<Rightarrow> string \<Rightarrow> bool" where
  "hasPrefixCodes w s = (take (length w) (map of_char s) = w)"

text \<open>The byte length of the white-space character at the head of \<open>s\<close>, or 0.\<close>

definition spaceAtHead :: "string \<Rightarrow> nat" where
  "spaceAtHead s = (case filter (\<lambda>w. hasPrefixCodes w s) whiteSpace of [] \<Rightarrow> 0 | w # _ \<Rightarrow> length w)"

text \<open>The byte length of the white-space character at the end of \<open>s\<close>, or 0.\<close>

definition spaceAtEnd :: "string \<Rightarrow> nat" where
  "spaceAtEnd s =
     (case filter (\<lambda>w. hasPrefixCodes (rev w) (rev s)) whiteSpace of [] \<Rightarrow> 0 | w # _ \<Rightarrow> length w)"

function trimLeft :: "string \<Rightarrow> string" where
  "trimLeft s = (if spaceAtHead s = 0 \<or> s = [] then s else trimLeft (drop (spaceAtHead s) s))"
  by pat_completeness auto
termination
  by (relation "measure length") auto

function trimRight :: "string \<Rightarrow> string" where
  "trimRight s =
     (if spaceAtEnd s = 0 \<or> s = [] then s else trimRight (take (length s - spaceAtEnd s) s))"
  by pat_completeness auto
termination
  by (relation "measure length") auto

definition TrimSpace :: "string \<Rightarrow> string" where
  "TrimSpace s = trimRight (trimLeft s)"

text \<open>\<open>strings.Split(s, sep)\<close> for a separator of one byte: never an empty list.\<close>

fun Split :: "char \<Rightarrow> string \<Rightarrow> string list" where
  "Split sep [] = [[]]"
| "Split sep (x # xs) =
     (if x = sep then [] # Split sep xs
      else (case Split sep xs of [] \<Rightarrow> [[x]] | w # ws \<Rightarrow> (x # w) # ws))"

text \<open>\<open>strings.Index(s, sep)\<close> for a separator of one byte: the first position, or -1.\<close>

fun Index :: "char \<Rightarrow> string \<Rightarrow> int" where
  "Index sep [] = - 1"
| "Index sep (x # xs) = (if x = sep then 0 else (let i = Index sep xs in if i < 0 then - 1 else i + 1))"

definition HasPrefixByte :: "char \<Rightarrow> string \<Rightarrow> bool" where
  "HasPrefixByte p s = (case s of [] \<Rightarrow> False | c # _ \<Rightarrow> c = p)"

text \<open>
  \<open>strconv.ParseFloat(s, 64)\<close>. The model reads plain decimal numerals itself: an optional
  sign, digits with at most one point, at least one and at most 18 digits in all. Every
  other spelling Go accepts or rejects (exponents, hexadecimal, underscores, longer
  numerals, infinities, NaN) is left to the parameter \<open>ext\<close>. The value is the exact
  decimal; the nearest float64 and the rounding of float64 arithmetic are not modelled,
  nor are infinities and NaN.
\<close>

definition isDigit :: "char \<Rightarrow> bool" where
  "isDigit c = (48 \<le> (of_char c :: nat) \<and> (of_char c :: nat) \<le> 57)"

definition digitsValue :: "string \<Rightarrow> nat" where
  "digitsValue ds = foldl (\<lambda>v c. 10 * v + ((of_char c :: nat) - 48)) 0 ds"

definition parseUnsigned :: "string \<Rightarrow> real option" where
  "parseUnsigned s =
     (let ip = takeWhile isDigit s; rest = dropWhile isDigit s;
          fp = (case rest of [] \<Rightarrow> [] | c # r \<Rightarrow> r);
          pointOk = (case rest of [] \<Rightarrow> True | c # r \<Rightarrow> c = CHR ''.'' \<and> list_all isDigit r)
      in if pointOk \<and> 0 < length ip + length fp \<and> length ip + length fp \<le> 18
         then Some (real (digitsValue ip) + real (digitsValue fp) / 10 ^ length fp)
         else None)"

definition parseDecimal :: "string \<Rightarrow> real option" where
  "parseDecimal s =
     (case s of
        [] \<Rightarrow> None
      | c # r \<Rightarrow>
          if c = CHR ''-'' then map_option uminus (parseUnsigned r)
          else if c = CHR ''+'' then parseUnsigned r
          else parseUnsigned s)"

definition ParseFloat :: "(string \<Rightarrow> real option) \<Rightarrow> string \<Rightarrow> real option" where
  "ParseFloat ext s = (case parseDecimal s of Some v \<Rightarrow> Some v | None \<Rightarrow> ext s)"

datatype lrc_error = ErrEmptyTime | ErrInvalidTimeFormat | ErrParseFloat | ErrNegativeTime

definition parseFloatSafe :: "(string \<Rightarrow> real option) \<Rightarrow> string \<Rightarrow> lrc_error + real" where
  "parseFloatSafe ext s =
     (case ParseFloat ext (TrimSpace s) of None \<Rightarrow> Inl ErrParseFloat | Some v \<Rightarrow> Inr v)"

definition parseLrcTimeToSeconds :: "(string \<Rightarrow> real option) \<Rightarrow> string \<Rightarrow> lrc_error + real" where
  "parseLrcTimeToSeconds ext raw =
     (if raw = [] then Inl ErrEmptyTime
      else
        let parts = Split CHR '':'' raw in
        if length parts < 2 \<or> length parts > 3 then Inl ErrInvalidTimeFormat
        else
          case (if length parts = 3
                then (case parseFloatSafe ext (parts ! 0) of Inl e \<Rightarrow> Inl e | Inr hours \<Rightarrow>
                      case parseFloatSafe ext (parts ! 1) of Inl e \<Rightarrow> Inl e | Inr minutes \<Rightarrow>
                      case parseFloatSafe ext (parts ! 2) of Inl e \<Rightarrow> Inl e | Inr seconds \<Rightarrow>
                        Inr (hours, minutes, seconds))
                else (case parseFloatSafe ext (parts ! 0) of Inl e \<Rightarrow> Inl e | Inr minutes \<Rightarrow>
                      case parseFloatSafe ext (parts ! 1) of Inl e \<Rightarrow> Inl e | Inr seconds \<Rightarrow>
                        Inr (0, minutes, seconds))) of
            Inl e \<Rightarrow> Inl e
          | Inr (hours, minutes, seconds) \<Rightarrow>
              let total = hours * 3600 + minutes * 60 + seconds in
              if total < 0 then Inl ErrNegativeTime else Inr total)"

definition splitLrcLine :: "string \<Rightarrow> string \<times> string" where
  "splitLrcLine line =
     (if \<not> HasPrefixByte CHR ''['' line then ([], [])
      else
        let endIndex = Index CHR '']'' line in
        if endIndex \<le> 1 then ([], [])
        else
          let timePart = take (nat endIndex - 1) (drop 1 line);
              textPart = TrimSpace (drop (nat endIndex + 1) line)
          in if textPart = [] then ([], []) else (timePart, textPart))"

record TimedLine =
  TimeSeconds :: real
  Text :: string

text \<open>The body of the loop of \<open>ParseSynced\<close>: the timed line a source line yields, if any.\<close>

definition parseLine :: "(string \<Rightarrow> real option) \<Rightarrow> string \<Rightarrow> TimedLine option" where
  "parseLine ext line =
     (let trimmed = TrimSpace line in
      if trimmed = [] then None
      else
        case splitLrcLine trimmed of (timePart, text) \<Rightarrow>
          if timePart = [] \<or> text = [] then None
          else
            case parseLrcTimeToSeconds ext timePart of
              Inl err \<Rightarrow> None
            | Inr seconds \<Rightarrow> Some \<lparr>TimeSeconds = seconds, Text = text\<rparr>)"

definition ParseSynced :: "(string \<Rightarrow> real option) \<Rightarrow> string \<Rightarrow> TimedLine list" where
  "ParseSynced ext raw =
     (if raw = [] then []
      else List.map_filter (parseLine ext) (Split CHR 0x0A raw))"

text \<open>
  \<open>FindCurrentLineIndex\<close>: the loop keeps the index of the last line seen and stops at the
  first line later than the position. \<open>i\<close> is the index of the head of the remaining lines.
\<close>

fun findLoop :: "nat \<Rightarrow> int \<Rightarrow> TimedLine list \<Rightarrow> real \<Rightarrow> int" where
  "findLoop i index [] positionSeconds = index"
| "findLoop i index (line # rest) positionSeconds =
     (if TimeSeconds line \<le> positionSeconds then findLoop (Suc i) (int i) rest positionSeconds
      else index)"

definition FindCurrentLineIndex :: "TimedLine list \<Rightarrow> real \<Rightarrow> int" where
  "FindCurrentLineIndex lines positionSeconds =
     (if length lines = 0 then - 1 else findLoop 0 (- 1) lines positionSeconds)"


section \<open>Lyric resolution (internal/player/player.go)\<close>

subsection \<open>String helpers\<close>

text \<open>\<open>strings.Contains(s, sub)\<close>.\<close>

fun Contains :: "string \<Rightarrow> string \<Rightarrow> bool" where
  "Contains [] sub = (sub = [])"
| "Contains (c # cs) sub = (take (length sub) (c # cs) = sub \<or> Contains cs sub)"

text \<open>\<open>strings.ReplaceAll(s, "  ", " ")\<close>: non-overlapping matches, from the left.\<close>

fun replaceDoubleSpace :: "string \<Rightarrow> string" where
  "replaceDoubleSpace (a # b # r) =
     (if a = CHR '' '' \<and> b = CHR '' '' then CHR '' '' # replaceDoubleSpace r
      else a # replaceDoubleSpace (b # r))"
| "replaceDoubleSpace s = s"

text \<open>The loop \<open>for strings.Contains(s, "  ") { s = strings.ReplaceAll(s, "  ", " ") }\<close>.\<close>

function collapseSpaces :: "string \<Rightarrow> string" where
  "collapseSpaces s =
     (if Contains s ''  '' then collapseSpaces (replaceDoubleSpace s) else s)"
  by pat_completeness auto
termination
proof (relation "measure length")
  show "wf (measure length)" by simp
next
  fix s :: string
  assume c: "Contains s ''  ''"
  have "Contains t ''  '' \<Longrightarrow> length (replaceDoubleSpace t) < length t" for t
  proof (induction t rule: replaceDoubleSpace.induct)
    case (1 a b r)
    have "length (replaceDoubleSpace r) \<le> length r" for r
      by (induction r rule: replaceDoubleSpace.induct) auto
    with 1 show ?case by (auto simp: le_imp_less_Suc)
  qed auto
  with c show "(replaceDoubleSpace s, s) \<in> measure length" by simp
qed

definition normalizeString :: "string \<Rightarrow> string" where
  "normalizeString s = TrimSpace (collapseSpaces (TrimSpace s))"

text \<open>
  One of the two bracket loops of \<open>stripVersionInfo\<close>, for the pair \<open>open\<close>, \<open>close\<close>: while
  both occur, the text from the first opener to the first closer is replaced by a space,
  and the loop breaks when the first closer is not after the first opener. The tests
  \<open>0 \<le> start\<close> and \<open>end' < length s\<close> hold whenever both characters occur; they are
  written out so that the termination of the loop is evident.
\<close>

function stripPairs :: "char \<Rightarrow> char \<Rightarrow> string \<Rightarrow> string" where
  "stripPairs opn cls s =
     (if Contains s [opn] \<and> Contains s [cls]
      then (let start = Index opn s; end' = Index cls s in
            if end' > start \<and> 0 \<le> start \<and> nat end' < length s
            then stripPairs opn cls (take (nat start) s @ '' '' @ drop (nat end' + 1) s)
            else s)
      else s)"
  by pat_completeness auto
termination
  by (relation "measure (\<lambda>(opn, cls, s). length s)") auto

definition stripVersionInfo :: "string \<Rightarrow> string" where
  "stripVersionInfo s =
     TrimSpace (collapseSpaces (stripPairs CHR ''['' CHR '']'' (stripPairs CHR ''('' CHR '')'' (TrimSpace s))))"

text \<open>
  \<open>strings.Fields\<close>: the maximal runs of bytes free of white space. \<open>w\<close> is the word being
  read, \<open>n\<close> the number of bytes of a white-space character still to skip.
\<close>

fun fieldsLoop :: "string \<Rightarrow> nat \<Rightarrow> string \<Rightarrow> string list" where
  "fieldsLoop w n [] = (if w = [] then [] else [w])"
| "fieldsLoop w n (c # cs) =
     (if 0 < n then fieldsLoop w (n - 1) cs
      else if 0 < spaceAtHead (c # cs)
           then (if w = [] then [] else [w]) @ fieldsLoop [] (spaceAtHead (c # cs) - 1) cs
           else fieldsLoop (w @ [c]) 0 cs)"

definition Fields :: "string \<Rightarrow> string list" where
  "Fields s = fieldsLoop [] 0 s"

text \<open>\<open>string(b)\<close> for a byte \<open>b\<close>: the UTF-8 encoding of the code point \<open>b\<close>.\<close>

definition stringOfByte :: "char \<Rightarrow> string" where
  "stringOfByte b =
     (if (of_char b :: nat) < 128 then [b]
      else [char_of (192 + (of_char b :: nat) div 64), char_of (128 + (of_char b :: nat) mod 64)])"

text \<open>\<open>strings.Join(words, " ")\<close>.\<close>

fun JoinSpace :: "string list \<Rightarrow> string" where
  "JoinSpace [] = []"
| "JoinSpace [w] = w"
| "JoinSpace (w # ws) = w @ '' '' @ JoinSpace ws"

definition toTitleCase :: "unicode \<Rightarrow> string \<Rightarrow> string" where
  "toTitleCase U s =
     JoinSpace (map (\<lambda>word. case word of
                        [] \<Rightarrow> word
                      | c # r \<Rightarrow> ToUpper U (stringOfByte c) @ ToLower U r) (Fields s))"

text \<open>\<open>fmt.Sprintf("%d", n)\<close> for an \<open>int64\<close>.\<close>

function natDigits :: "nat \<Rightarrow> string" where
  "natDigits n = (if n < 10 then [char_of (48 + n)] else natDigits (n div 10) @ [char_of (48 + n mod 10)])"
  by pat_completeness auto
termination
  by (relation "measure id") auto

definition formatInt64 :: "int64 \<Rightarrow> string" where
  "formatInt64 n = (if sint n < 0 then ''-'' @ natDigits (nat (- sint n)) else natDigits (nat (sint n)))"

subsection \<open>Requests and responses\<close>

record TrackParams =
  Title :: string
  Artist :: string
  Album :: string
  DurationSecs :: int64

record LrclibResponse =
  respTrackName :: string
  respArtistName :: string
  respAlbumName :: string
  respDuration :: real
  respInstrumental :: bool
  respPlainLyrics :: string
  respSyncedLyrics :: string
  respSyncOffset :: real

text \<open>
  A Go \<open>error\<close> of a request: whether \<open>errors.Is(err, context.DeadlineExceeded)\<close> holds of it,
  and its text \<open>err.Error()\<close>.
\<close>

record req_error =
  isDeadlineExceeded :: bool
  message :: string

definition isTimeoutError :: "req_error \<Rightarrow> bool" where
  "isTimeoutError err =
     (isDeadlineExceeded err
      \<or> Contains (message err) ''timeout''
      \<or> Contains (message err) ''deadline exceeded''
      \<or> Contains (message err) ''i/o timeout'')"

text \<open>\<open>fmt.Errorf\<close> with a text only, and with a prefix and a wrapped error (\<open>%w\<close>).\<close>

definition errorf :: "string \<Rightarrow> req_error" where
  "errorf m = \<lparr>isDeadlineExceeded = False, message = m\<rparr>"

definition wrapf :: "string \<Rightarrow> req_error \<Rightarrow> req_error" where
  "wrapf prefix err = err\<lparr>message := prefix @ message err\<rparr>"

text \<open>
  What the network does with one request, as \<open>doFetchRequest\<close> observes it: the request
  cannot be built; \<open>client.Do\<close> fails (among others when the deadline passes); a status
  other than 200 comes back, with the first 512 bytes of the body; reading the body
  fails; the body is not the expected JSON (with the decoder's error); or it decodes.
\<close>

datatype http_result =
    BuildError req_error
  | DoError req_error
  | StatusNotOK nat string
  | ReadError req_error
  | DecodeError req_error
  | Decoded LrclibResponse

definition doFetchRequest :: "http_result \<Rightarrow> req_error + LrclibResponse" where
  "doFetchRequest r =
     (case r of
        BuildError err \<Rightarrow> Inl (wrapf ''failed to build http request: '' err)
      | DoError err \<Rightarrow> Inl err
      | StatusNotOK code body \<Rightarrow>
          if code = 404 then Inl (errorf ''status 404: lyrics not found'')
          else Inl (errorf (''lrclib returned status '' @ natDigits code @ '': '' @ body))
      | ReadError err \<Rightarrow> Inl (wrapf ''failed to read lrclib response: '' err)
      | DecodeError err \<Rightarrow> Inl (wrapf ''failed to decode lrclib json: '' err)
      | Decoded payload \<Rightarrow> Inr payload)"

text \<open>
  \<open>url.Values\<close>: the query parameters, a key with its values. \<open>Values.Set\<close> replaces the
  values of a key by one value. \<open>parsedURL.Query()\<close> parses \<open>parsedURL.RawQuery\<close> and
  \<open>query.Encode()\<close> writes it back; the model keeps the parameters themselves in place of
  the raw query string.
\<close>

type_synonym Values = "(string \<times> string list) list"

fun ValuesSet :: "Values \<Rightarrow> string \<Rightarrow> string \<Rightarrow> Values" where
  "ValuesSet [] k v = [(k, [v])]"
| "ValuesSet ((k', vs) # q) k v = (if k' = k then (k, [v]) # q else (k', vs) # ValuesSet q k v)"

definition ValuesGet :: "Values \<Rightarrow> string \<Rightarrow> string" where
  "ValuesGet q k = (case map_of q k of None \<Rightarrow> [] | Some [] \<Rightarrow> [] | Some (v # vs) \<Rightarrow> v)"

definition ValuesHas :: "Values \<Rightarrow> string \<Rightarrow> bool" where
  "ValuesHas q k = (map_of q k \<noteq> None)"

subsection \<open>Search strategies\<close>

record strategy =
  s_artist :: string
  s_title :: string
  s_album :: string
  s_duration :: int64

definition searchStrategies :: "unicode \<Rightarrow> TrackParams \<Rightarrow> strategy list" where
  "searchStrategies U track =
     (let normalizedArtist = normalizeString (Artist track);
          normalizedTitle = normalizeString (Title track);
          strippedArtist = stripVersionInfo (Artist track);
          strippedTitle = stripVersionInfo (Title track)
      in [\<lparr>s_artist = normalizedArtist, s_title = normalizedTitle,
            s_album = Album track, s_duration = DurationSecs track\<rparr>,
          \<lparr>s_artist = normalizedArtist, s_title = normalizedTitle,
            s_album = [], s_duration = DurationSecs track\<rparr>,
          \<lparr>s_artist = normalizedArtist, s_title = normalizedTitle, s_album = [], s_duration = 0\<rparr>,
          \<lparr>s_artist = strippedArtist, s_title = strippedTitle, s_album = [], s_duration = 0\<rparr>,
          \<lparr>s_artist = ToUpper U normalizedArtist, s_title = ToUpper U normalizedTitle,
            s_album = [], s_duration = 0\<rparr>,
          \<lparr>s_artist = ToLower U normalizedArtist, s_title = ToLower U normalizedTitle,
            s_album = [], s_duration = 0\<rparr>,
          \<lparr>s_artist = toTitleCase U normalizedArtist, s_title = toTitleCase U normalizedTitle,
            s_album = [], s_duration = 0\<rparr>,
          \<lparr>s_artist = Artist track, s_title = Title track, s_album = [], s_duration = 0\<rparr>])"

text \<open>The key \<open>fmt.Sprintf("%s|%s|%s|%d", ...)\<close> of the deduplication.\<close>

definition strategyKey :: "strategy \<Rightarrow> string" where
  "strategyKey st =
     s_artist st @ ''|'' @ s_title st @ ''|'' @ s_album st @ ''|'' @ formatInt64 (s_duration st)"

text \<open>The deduplication loop; \<open>seen\<close> holds the keys met so far.\<close>

fun uniqueLoop :: "string list \<Rightarrow> strategy list \<Rightarrow> strategy list" where
  "uniqueLoop seen [] = []"
| "uniqueLoop seen (st # rest) =
     (if s_artist st = [] \<or> s_title st = [] then uniqueLoop seen rest
      else
        let key = strategyKey st in
        if key \<notin> set seen then st # uniqueLoop (key # seen) rest
        else uniqueLoop seen rest)"

definition uniqueStrategies :: "unicode \<Rightarrow> TrackParams \<Rightarrow> strategy list" where
  "uniqueStrategies U track = uniqueLoop [] (searchStrategies U track)"

text \<open>
  The head of the body of the request loop: the query is read from the URL as the previous
  iteration left it, the parameters of the strategy are set, and the result is written
  back to the URL.
\<close>

definition buildQuery :: "Values \<Rightarrow> strategy \<Rightarrow> Values" where
  "buildQuery rawQuery st =
     (let query = rawQuery;
          query = ValuesSet query ''artist_name'' (s_artist st);
          query = ValuesSet query ''track_name'' (s_title st);
          query = (if s_album st \<noteq> [] then ValuesSet query ''album_name'' (s_album st) else query);
          query = (if 0 <s s_duration st
                   then ValuesSet query ''duration'' (formatInt64 (s_duration st)) else query)
      in query)"

subsection \<open>Fetch\<close>

text \<open>
  The errors \<open>Fetch\<close> returns. \<open>ErrTooSlow\<close> is ``lyrics server took too long to respond'',
  \<open>ErrContext\<close> is \<open>parentCtx.Err()\<close>, and \<open>ErrNoLyricsFound\<close> is ``no lyrics found for
  artist - title'', with the last error of the loop when there is one.
\<close>

datatype fetch_error =
    ErrNilTrack
  | ErrEmptyTitleOrArtist
  | ErrEmptyBaseURL
  | ErrEmptyAfterNormalization
  | ErrInvalidURL
  | ErrContext
  | ErrTooSlow
  | ErrNoLyricsFound string string "req_error option"

text \<open>
  What \<open>Fetch\<close> meets outside the program: whether \<open>url.Parse\<close> accepts the base URL and
  the query parameters it then carries; what the network does with the request number
  \<open>n\<close> (counted from 0) carrying given parameters; whether the caller's context is done
  during the delay before strategy \<open>n\<close>; the clock readings, the outcome of a removal and
  the outcome of the write of the cache calls.
\<close>

record env =
  urlParse :: "string \<Rightarrow> Values option"
  http :: "nat \<Rightarrow> Values \<Rightarrow> http_result"
  ctxDone :: "nat \<Rightarrow> bool"
  getNow1 :: int64
  getNow2 :: int64
  removeOk :: bool
  setNow :: int64
  writeOutcome :: write_outcome

type_synonym fetch_result =
  "(fetch_error + LrclibResponse) \<times> DiskCache \<times> filesystem \<times> Values list"

definition entryOfPayload :: "LrclibResponse \<Rightarrow> LyricEntry" where
  "entryOfPayload payload =
     \<lparr>Version = 0, TrackName = respTrackName payload, ArtistName = respArtistName payload,
      AlbumName = respAlbumName payload, Duration = respDuration payload,
      Instrumental = respInstrumental payload, PlainLyrics = respPlainLyrics payload,
      SyncedLyrics = respSyncedLyrics payload, SyncOffset = respSyncOffset payload,
      CreatedAt = 0, ExpiresAt = 0\<rparr>"

definition responseOfEntry :: "LyricEntry \<Rightarrow> LrclibResponse" where
  "responseOfEntry cached =
     \<lparr>respTrackName = TrackName cached, respArtistName = ArtistName cached,
      respAlbumName = AlbumName cached, respDuration = Duration cached,
      respInstrumental = Instrumental cached, respPlainLyrics = PlainLyrics cached,
      respSyncedLyrics = SyncedLyrics cached, respSyncOffset = SyncOffset cached\<rparr>"

definition withRequest :: "Values \<Rightarrow> fetch_result \<Rightarrow> fetch_result" where
  "withRequest q r = (case r of (res, c, fs, reqs) \<Rightarrow> (res, c, fs, q # reqs))"

text \<open>
  The request loop over the unique strategies. \<open>rawQuery\<close> is the query of the URL as the
  previous iteration left it, \<open>strategyIdx\<close> the index of the head of the remaining
  strategies (also the number of requests issued so far) and \<open>lastErr\<close> the last error.
  The result carries the cache, the files, and the requests issued from here on, each as
  the query parameters it was sent with.
\<close>

fun fetchLoop ::
  "env \<Rightarrow> unicode \<Rightarrow> TrackParams \<Rightarrow> DiskCache \<Rightarrow> filesystem \<Rightarrow> Values \<Rightarrow> nat
     \<Rightarrow> req_error option \<Rightarrow> strategy list \<Rightarrow> fetch_result" where
  "fetchLoop E U track c fs rawQuery strategyIdx lastErr [] =
     (Inl (ErrNoLyricsFound (Artist track) (Title track) lastErr), c, fs, [])"
| "fetchLoop E U track c fs rawQuery strategyIdx lastErr (st # rest) =
     (let query = buildQuery rawQuery st in
      if 0 < strategyIdx \<and> ctxDone E strategyIdx then (Inl ErrContext, c, fs, [])
      else
        case doFetchRequest (http E strategyIdx query) of
          Inr payload \<Rightarrow>
            if respPlainLyrics payload = [] \<and> respSyncedLyrics payload = []
               \<and> \<not> respInstrumental payload
            then withRequest query
                   (fetchLoop E U track c fs query (Suc strategyIdx)
                      (Some (errorf ''no lyrics in response'')) rest)
            else (case Set U c fs (Artist track) (Title track) (Some (entryOfPayload payload))
                         (setNow E) (writeOutcome E) of
                    (err, c', fs') \<Rightarrow> (Inr payload, c', fs', [query]))
        | Inl err \<Rightarrow>
            if isTimeoutError err then (Inl ErrTooSlow, c, fs, [query])
            else withRequest query
                   (fetchLoop E U track c fs query (Suc strategyIdx) (Some err) rest))"

definition Fetch ::
  "env \<Rightarrow> unicode \<Rightarrow> DiskCache \<Rightarrow> filesystem \<Rightarrow> string \<Rightarrow> TrackParams option \<Rightarrow> fetch_result" where
  "Fetch E U c fs baseURL track =
     (case track of
        None \<Rightarrow> (Inl ErrNilTrack, c, fs, [])
      | Some tr \<Rightarrow>
          if Title tr = [] \<or> Artist tr = [] then (Inl ErrEmptyTitleOrArtist, c, fs, [])
          else if baseURL = [] then (Inl ErrEmptyBaseURL, c, fs, [])
          else if normalizeString (Title tr) = [] \<or> normalizeString (Artist tr) = []
          then (Inl ErrEmptyAfterNormalization, c, fs, [])
          else
            case Get U c fs (Artist tr) (Title tr) (getNow1 E) (getNow2 E) (removeOk E) of
              (Inr cached, c1, fs1) \<Rightarrow> (Inr (responseOfEntry cached), c1, fs1, [])
            | (Inl err, c1, fs1) \<Rightarrow>
                (case urlParse E baseURL of
                   None \<Rightarrow> (Inl ErrInvalidURL, c1, fs1, [])
                 | Some rawQuery \<Rightarrow>
                     fetchLoop E U tr c1 fs1 rawQuery 0 None (uniqueStrategies U tr)))"

text \<open>Concrete values used to run the model: a track, and a service that has no lyrics.\<close>

definition exampleTrack :: TrackParams where
  "exampleTrack = \<lparr>Title = ''T'', Artist = ''A'', Album = ''Al'', DurationSecs = 200\<rparr>"

definition notFoundEnv :: env where
  "notFoundEnv =
     \<lparr>urlParse = (\<lambda>u. Some []), http = (\<lambda>n q. StatusNotOK 404 []), ctxDone = (\<lambda>n. False),
      getNow1 = 1700000005, getNow2 = 1700000005, removeOk = True, setNow = 1700000005,
      writeOutcome = WriteOk\<rparr>"






section \<open>Signed arithmetic without overflow\<close>

lemma sint_add_noov:
  fixes a b :: int64
  assumes "- (2 ^ 63) \<le> sint a + sint b" and "sint a + sint b < 2 ^ 63"
  shows "sint (a + b) = sint a + sint b"
  using assms by (simp add: sint_word_ariths signed_take_bit_int_eq_self)

lemma sint_sub_noov:
  fixes a b :: int64
  assumes "- (2 ^ 63) \<le> sint a - sint b" and "sint a - sint b < 2 ^ 63"
  shows "sint (a - b) = sint a - sint b"
  using assms by (simp add: sint_word_ariths signed_take_bit_int_eq_self)

lemma sint_neg_noov:
  fixes a :: int64
  assumes "- (2 ^ 63) < sint a"
  shows "sint (- a) = - sint a"
  using assms sint_lt [of a] by (simp add: sint_word_ariths signed_take_bit_int_eq_self)

lemma sint_of_int_noov:
  assumes "- (2 ^ 63) \<le> k" and "k < 2 ^ 63"
  shows "sint (word_of_int k :: int64) = k"
  using assms by (simp add: signed_take_bit_int_eq_self Word.sint_sbintrunc')

section \<open>The seek heuristic\<close>

lemma NewService_state: "NewService b svc = Inr srv \<Longrightarrow> state srv = zeroState"
  by (auto simp: NewService_def split: option.splits if_splits)

lemma SecondsInt64_nonneg:
  assumes "0 \<le> d" and "d < 2 ^ 63"
  shows "sint (SecondsInt64 d) = d div 1000000000"
proof -
  have a: "0 \<le> d div 1000000000" using assms by simp
  have b: "d div 1000000000 \<le> d" using assms by arith
  have c: "sgn d * (\<bar>d\<bar> div 1000000000) = d div 1000000000"
    using assms by (cases "d = 0") (simp_all add: sgn_if)
  have "sint (word_of_int (d div 1000000000) :: int64) = d div 1000000000"
    using a b assms by (intro sint_of_int_noov) simp_all
  then show ?thesis
    unfolding SecondsInt64_def c .
qed

lemma Since_plain: "0 \<le> now - t \<Longrightarrow> now - t < 2 ^ 63 \<Longrightarrow> Since now t = now - t"
  by (simp add: Since_def Sub_def)

text \<open>
  Claim C7, as amended. For a state with a recorded baseline (last position \<open>p0\<close> observed at
  time \<open>t0\<close>, not the zero time) and a poll at time \<open>now\<close>, with the elapsed time
  \<open>now - t0\<close> between 0 and \<open>2^24\<close> seconds and positions of magnitude below \<open>2^61\<close>
  seconds, \<open>DetectSeek a\<close> holds exactly when \<open>a\<close> differs by more than 3 from
  \<open>p0\<close> plus the elapsed time truncated to whole seconds.
\<close>

theorem DetectSeek_whole_seconds:
  assumes nz: "lastPositionUpdate s \<noteq> 0"
    and el: "0 \<le> now - lastPositionUpdate s" "now - lastPositionUpdate s < 2 ^ 24 * 1000000000"
    and p0: "\<bar>sint (lastPositionSecs s)\<bar> < 2 ^ 61"
    and a: "\<bar>sint a\<bar> < 2 ^ 61"
  shows "DetectSeek s a now =
     (\<bar>sint a - (sint (lastPositionSecs s) + (now - lastPositionUpdate s) div 1000000000)\<bar> > 3)"
proof -
  let ?d = "now - lastPositionUpdate s"
  let ?e = "?d div 1000000000"
  have d63: "?d < 2 ^ 63" using el by simp
  have e: "sint (SecondsInt64 ?d) = ?e" using el d63 by (simp add: SecondsInt64_nonneg)
  have e0: "0 \<le> ?e" using el by simp
  have e1: "?e < 2 ^ 24" using el by simp
  have ex: "sint (lastPositionSecs s + SecondsInt64 ?d) = sint (lastPositionSecs s) + ?e"
    using p0 e e0 e1 by (subst sint_add_noov) simp_all
  have df: "sint (a - (lastPositionSecs s + SecondsInt64 ?d))
              = sint a - (sint (lastPositionSecs s) + ?e)"
    using p0 a ex e0 e1 by (subst sint_sub_noov) simp_all
  have ng: "sint (- (a - (lastPositionSecs s + SecondsInt64 ?d)))
              = - (sint a - (sint (lastPositionSecs s) + ?e))"
    using p0 a df e0 e1 by (subst sint_neg_noov) simp_all
  show ?thesis
    using nz el d63 df ng
    by (simp add: DetectSeek_def IsZero_def Since_plain Let_def word_sless_alt)
qed

text \<open>
  The specification's own example: baseline 10 s, five seconds later a reading of 16 s is
  no seek and a reading of 25 s is one.
\<close>

theorem DetectSeek_whole_seconds_witness:
  "\<not> DetectSeek \<lparr>Track = None :: unit option, PositionSecs = 10, Playing = True,
                   lastPositionUpdate = 1000, lastPositionSecs = 10\<rparr> 16 5000001000
   \<and> DetectSeek \<lparr>Track = None :: unit option, PositionSecs = 10, Playing = True,
                   lastPositionUpdate = 1000, lastPositionSecs = 10\<rparr> 25 5000001000"
  using DetectSeek_whole_seconds [of "\<lparr>Track = None :: unit option, PositionSecs = 10, Playing = True,
                   lastPositionUpdate = 1000, lastPositionSecs = 10\<rparr>" 5000001000 16]
        DetectSeek_whole_seconds [of "\<lparr>Track = None :: unit option, PositionSecs = 10, Playing = True,
                   lastPositionUpdate = 1000, lastPositionSecs = 10\<rparr>" 5000001000 25]
  by simp

text \<open>
  Claim C7 as stated fails when the elapsed time is not a whole number of seconds: with
  baseline 10 s and a poll 5.9 s later reading 12 s, the stated rule gives
  \<open>|12 - 15.9| = 3.9 > 3\<close>, a seek, while the code computes \<open>|12 - 15| = 3\<close>, no seek.
\<close>

theorem DetectSeek_fraction_counterexample:
  "spec_seek 10 5900000000 12
   \<and> \<not> DetectSeek \<lparr>Track = None :: unit option, PositionSecs = 10, Playing = True,
                     lastPositionUpdate = 1000, lastPositionSecs = 10\<rparr> 12 5900001000"
  by (simp add: spec_seek_def DetectSeek_def IsZero_def Since_def Sub_def SecondsInt64_def
        Let_def word_sless_alt)

text \<open>
  Claim C10. When no position has been observed yet (the last-observed timestamp is the zero
  time), \<open>DetectSeek\<close> is false for every new position and every clock reading; this is the
  state of every service \<open>NewService\<close> returns.
\<close>

theorem DetectSeek_first_poll:
  "(IsZero (lastPositionUpdate s) \<longrightarrow> \<not> DetectSeek s p now)
   \<and> (NewService b svc = Inr srv \<longrightarrow> \<not> DetectSeek (state srv) p now)"
proof (intro conjI impI)
  assume "IsZero (lastPositionUpdate s)"
  then show "\<not> DetectSeek s p now" by (simp add: DetectSeek_def)
next
  assume "NewService b svc = Inr srv"
  then have "state srv = zeroState" by (rule NewService_state)
  then show "\<not> DetectSeek (state srv) p now"
    by (simp add: DetectSeek_def zeroState_def IsZero_def)
qed

theorem DetectSeek_first_poll_witness:
  "IsZero (lastPositionUpdate (zeroState :: unit State))
   \<and> \<not> DetectSeek (zeroState :: unit State) 25 5000001000
   \<and> NewService (Some ()) ''org.mpris.MediaPlayer2.spotify''
       = Inr (\<lparr>bus = (), service = ''org.mpris.MediaPlayer2.spotify'', eventChanCap = 16,
               state = zeroState\<rparr> :: (unit, unit) Service)
   \<and> \<not> DetectSeek (state (\<lparr>bus = (), service = ''org.mpris.MediaPlayer2.spotify'',
               eventChanCap = 16, state = zeroState\<rparr> :: (unit, unit) Service)) 25 5000001000"
  using DetectSeek_first_poll [of "zeroState :: unit State" 25 5000001000 "Some ()"
      "''org.mpris.MediaPlayer2.spotify''"
      "\<lparr>bus = (), service = ''org.mpris.MediaPlayer2.spotify'', eventChanCap = 16,
               state = zeroState\<rparr> :: (unit, unit) Service"]
  by (simp add: NewService_def zeroState_def IsZero_def)


section \<open>The cache key\<close>

lemma length_Sum256: "length (Sum256 m) = 32"
  by (simp add: Sum256_def be_bytes32_def Let_def split: prod.splits)

lemma length_EncodeToString: "length (EncodeToString bs) = 2 * length bs"
  by (induction bs) (simp_all add: EncodeToString_def)

lemma hexdigit_in: "hexdigit n \<in> set ''0123456789abcdef''"
proof -
  have "n mod 16 < length ''0123456789abcdef''" by simp
  then show ?thesis unfolding hexdigit_def by (rule nth_mem)
qed

lemma set_EncodeToString: "set (EncodeToString bs) \<subseteq> set ''0123456789abcdef''"
  unfolding EncodeToString_def using hexdigit_in by auto

lemma length_generateKey: "length (generateKey U a t) = 24"
  by (simp add: generateKey_def Let_def length_EncodeToString length_Sum256)

lemma of_char_lowerASCII:
  "isUpperASCII c \<Longrightarrow> (of_char (lowerASCII c) :: nat) = of_char c + 32"
  by (simp add: lowerASCII_def isUpperASCII_def)

lemma lowerASCII_not_upper: "\<not> isUpperASCII (lowerASCII c)"
proof (cases "isUpperASCII c")
  case True
  then have "(of_char (lowerASCII c) :: nat) = of_char c + 32" by (rule of_char_lowerASCII)
  with True show ?thesis by (simp add: isUpperASCII_def)
next
  case False
  then show ?thesis by (simp add: lowerASCII_def)
qed

lemma lowerASCII_ascii: "(of_char c :: nat) < 128 \<Longrightarrow> (of_char (lowerASCII c) :: nat) < 128"
  by (cases "isUpperASCII c") (simp_all add: lowerASCII_def isUpperASCII_def)

lemma isASCII_map_lower: "isASCII s \<Longrightarrow> isASCII (map lowerASCII s)"
  by (simp add: isASCII_def list_all_iff lowerASCII_ascii)

lemma no_upper_map_lower: "\<not> list_ex isUpperASCII (map lowerASCII s)"
  by (simp add: list_ex_iff lowerASCII_not_upper)

lemma ToLower_ascii_fixed:
  assumes "isASCII s"
  shows "ToLower U (ToLower U s) = ToLower U s"
proof (cases "list_ex isUpperASCII s")
  case False
  with assms show ?thesis by (simp add: ToLower_def)
next
  case True
  with assms have "ToLower U s = map lowerASCII s" by (simp add: ToLower_def)
  moreover have "ToLower U (map lowerASCII s) = map lowerASCII s"
    using isASCII_map_lower [OF assms] no_upper_map_lower [of s] by (simp add: ToLower_def)
  ultimately show ?thesis by simp
qed


section \<open>The cache operations\<close>

lemma ttl_value: "(word_of_int (defaultTTLDays * 24 * 60 * 60) :: int64) = 2592000"
  by (simp add: defaultTTLDays_def)

lemma not_sle_iff: "(\<not> a \<le>s b) = (b <s a)"
  by (simp add: word_sle_eq word_sless_alt not_le)

lemma Set_result:
  assumes "artist \<noteq> []" and "title \<noteq> []"
    and "Set U c fs artist title (Some e) now w = (err, c', fs')"
  shows "c' = c\<lparr>memCache := (memCache c)(generateKey U artist title \<mapsto>
            e\<lparr>Version := cacheVersion, CreatedAt := now, ExpiresAt := now + 2592000\<rparr>)\<rparr>"
    and "basePath c = [] \<Longrightarrow> err = None \<and> fs' = fs"
    and "basePath c \<noteq> [] \<Longrightarrow>
           (err, fs') = writeToDisk fs (getFilePath c (generateKey U artist title))
              (e\<lparr>Version := cacheVersion, CreatedAt := now, ExpiresAt := now + 2592000\<rparr>) w"
  using assms unfolding Set_def ttl_value by (auto simp: Let_def split: if_splits prod.splits)

lemma writeToDisk_files:
  assumes "writeToDisk fs path e w = (err, fs')" and "fs' p = Some (Gob x)"
  shows "x = e \<or> fs p = Some (Gob x)"
  using assms by (cases w) (auto simp: writeToDisk_def Let_def split: if_splits)

lemma writeToDisk_ok:
  "writeToDisk fs path e w = (None, fs') \<Longrightarrow> fs' path = Some (Gob e)"
  by (cases w) (auto simp: writeToDisk_def Let_def)

lemma stamped_Set_entry:
  "stamped (e\<lparr>Version := cacheVersion, CreatedAt := now, ExpiresAt := now + 2592000\<rparr>)"
  by (simp add: stamped_def)

lemma Set_preserves_inv:
  assumes ne: "artist \<noteq> []" "title \<noteq> []"
    and s: "Set U c fs artist title (Some e) now w = (err, c', fs')"
    and inv: "cache_inv c fs"
  shows "cache_inv c' fs'"
proof -
  let ?e = "e\<lparr>Version := cacheVersion, CreatedAt := now, ExpiresAt := now + 2592000\<rparr>"
  have c': "c' = c\<lparr>memCache := (memCache c)(generateKey U artist title \<mapsto> ?e)\<rparr>"
    using Set_result(1) [OF ne s] .
  have mem: "\<forall>k x. memCache c' k = Some x \<longrightarrow> stamped x"
    using inv stamped_Set_entry by (auto simp: c' cache_inv_def)
  have disk: "\<forall>p x. fs' p = Some (Gob x) \<longrightarrow> stamped x"
  proof (cases "basePath c = []")
    case True
    then have "fs' = fs" using Set_result(2) [OF ne s] by simp
    with inv show ?thesis by (simp add: cache_inv_def)
  next
    case False
    then have w: "writeToDisk fs (getFilePath c (generateKey U artist title)) ?e w = (err, fs')"
      using Set_result(3) [OF ne s] by simp
    show ?thesis
    proof (intro allI impI)
      fix p x assume "fs' p = Some (Gob x)"
      with w have "x = ?e \<or> fs p = Some (Gob x)" by (rule writeToDisk_files)
      then show "stamped x"
        using inv stamped_Set_entry by (auto simp: cache_inv_def)
    qed
  qed
  show ?thesis using mem disk by (simp add: cache_inv_def)
qed

lemma readFromDisk_cases:
  "readFromDisk fs path rmOk = (Inr e, fs') \<Longrightarrow> fs path = Some (Gob e) \<and> fs' = fs \<and> Version e = cacheVersion"
  by (auto simp: readFromDisk_def split: option.splits disk_file.splits if_splits)

lemma readFromDisk_subset:
  "readFromDisk fs path rmOk = (r, fs') \<Longrightarrow> fs' p = Some f \<Longrightarrow> fs p = Some f"
  by (auto simp: readFromDisk_def Remove_def split: option.splits disk_file.splits if_splits)

lemma Get_disk_Inr:
  assumes "Get_disk c fs key now rmOk = (Inr e, c', fs')"
  shows "fs (getFilePath c key) = Some (Gob e) \<and> now <s ExpiresAt e \<and> fs' = fs
         \<and> c' = c\<lparr>memCache := (memCache c)(key \<mapsto> e)\<rparr> \<and> Version e = cacheVersion \<and> basePath c \<noteq> []"
  using assms
  by (auto simp: Get_disk_def Let_def not_sle_iff dest: readFromDisk_cases
      split: if_splits prod.splits sum.splits)

lemma Get_disk_mem:
  assumes "Get_disk c fs key now rmOk = (r, c', fs')" and "memCache c' k = Some x"
  shows "memCache c k = Some x \<or> (r = Inr x \<and> k = key)"
  using assms
  by (auto simp: Get_disk_def Let_def split: if_splits prod.splits sum.splits)

lemma Get_disk_files:
  assumes "Get_disk c fs key now rmOk = (r, c', fs')" and "fs' p = Some f"
  shows "fs p = Some f"
  using assms
  by (auto simp: Get_disk_def Let_def Remove_def dest: readFromDisk_subset
      split: if_splits prod.splits sum.splits)

lemma Get_mem_hit:
  assumes "artist \<noteq> []" "title \<noteq> []"
    and "memCache c (generateKey U artist title) = Some e" and "now1 <s ExpiresAt e"
  shows "Get U c fs artist title now1 now2 rmOk = (Inr e, c, fs)"
  using assms by (simp add: Get_def Let_def)

lemma Get_falls_to_disk:
  assumes "artist \<noteq> []" "title \<noteq> []"
    and "memCache c (generateKey U artist title) = None
         \<or> (\<exists>x. memCache c (generateKey U artist title) = Some x \<and> \<not> now1 <s ExpiresAt x)"
  shows "Get U c fs artist title now1 now2 rmOk
         = Get_disk (c\<lparr>memCache := (memCache c)(generateKey U artist title := None)\<rparr>) fs
             (generateKey U artist title) now2 rmOk"
proof -
  have "memCache c (generateKey U artist title) = None \<Longrightarrow>
        c\<lparr>memCache := (memCache c)(generateKey U artist title := None)\<rparr> = c"
    by (simp add: fun_upd_idem)
  then show ?thesis using assms by (auto simp: Get_def Let_def)
qed

lemma Get_unexpired:
  assumes "Get U c fs artist title now1 now2 rmOk = (Inr e, c', fs')"
  shows "now1 <s ExpiresAt e \<or> now2 <s ExpiresAt e"
  using assms
  by (auto simp: Get_def Let_def dest: Get_disk_Inr split: if_splits option.splits)

lemma Get_preserves_inv:
  assumes g: "Get U c fs artist title now1 now2 rmOk = (r, c', fs')" and inv: "cache_inv c fs"
  shows "cache_inv c' fs' \<and> (\<forall>e. r = Inr e \<longrightarrow> stamped e)"
proof (cases "artist = [] \<or> title = []")
  case True
  with g inv show ?thesis by (auto simp: Get_def)
next
  case ne: False
  let ?k = "generateKey U artist title"
  show ?thesis
  proof (cases "\<exists>e. memCache c ?k = Some e \<and> now1 <s ExpiresAt e")
    case True
    then obtain e where "memCache c ?k = Some e" "now1 <s ExpiresAt e" by blast
    with g ne inv show ?thesis by (auto simp: Get_def Let_def cache_inv_def)
  next
    case False
    let ?c0 = "c\<lparr>memCache := (memCache c)(?k := None)\<rparr>"
    have "memCache c ?k = None \<or> (\<exists>x. memCache c ?k = Some x \<and> \<not> now1 <s ExpiresAt x)"
      using False by (cases "memCache c ?k") auto
    then have d: "Get_disk ?c0 fs ?k now2 rmOk = (r, c', fs')"
      using g ne Get_falls_to_disk [of artist title c U now1 fs now2 rmOk] by simp
    have r: "\<forall>e. r = Inr e \<longrightarrow> stamped e"
    proof (intro allI impI)
      fix e assume "r = Inr e"
      with d have "fs (getFilePath ?c0 ?k) = Some (Gob e)" by (auto dest: Get_disk_Inr)
      with inv show "stamped e" by (auto simp: cache_inv_def)
    qed
    have m: "\<forall>k x. memCache c' k = Some x \<longrightarrow> stamped x"
    proof (intro allI impI)
      fix k x assume "memCache c' k = Some x"
      with d have "memCache ?c0 k = Some x \<or> (r = Inr x \<and> k = ?k)" by (rule Get_disk_mem)
      then show "stamped x" using inv r by (auto simp: cache_inv_def split: if_splits)
    qed
    have f: "\<forall>p x. fs' p = Some (Gob x) \<longrightarrow> stamped x"
      using Get_disk_files [OF d] inv unfolding cache_inv_def by blast
    show ?thesis using r m f by (simp add: cache_inv_def)
  qed
qed

lemma sless_ttl:
  assumes "sint now + 2592000 < 2 ^ 63" and "sint t < sint now + 2592000"
  shows "t <s now + (2592000 :: int64)"
proof -
  have "- (2 ^ 63) \<le> sint now" using sint_ge [of now] by simp
  then have "sint (now + 2592000) = sint now + sint (2592000 :: int64)"
    using assms by (intro sint_add_noov) simp_all
  then show ?thesis using assms by (simp add: word_sless_alt)
qed

lemma Set_then_Get:
  assumes ne: "artist \<noteq> []" "title \<noteq> []"
    and s: "Set U c fs artist title (Some e) now w = (err, c', fs')"
    and nov: "sint now + 2592000 < 2 ^ 63"
    and soon: "sint now1 < sint now + 2592000"
  shows "Get U c' fs' artist title now1 now2 rmOk
         = (Inr (e\<lparr>Version := cacheVersion, CreatedAt := now, ExpiresAt := now + 2592000\<rparr>), c', fs')"
proof -
  let ?e = "e\<lparr>Version := cacheVersion, CreatedAt := now, ExpiresAt := now + 2592000\<rparr>"
  have "memCache c' (generateKey U artist title) = Some ?e"
    using Set_result(1) [OF ne s] by simp
  moreover have "now1 <s ExpiresAt ?e" using sless_ttl [OF nov soon] by simp
  ultimately show ?thesis using ne by (rule_tac Get_mem_hit) 
qed


lemma lowerASCII_idem: "lowerASCII (lowerASCII c) = lowerASCII c"
  using lowerASCII_not_upper [of c] by (simp add: lowerASCII_def)

lemma ToLower_asciiTables: "ToLower asciiTables s = map lowerASCII s"
proof -
  have "\<not> list_ex isUpperASCII s \<Longrightarrow> map lowerASCII s = s"
    by (induction s) (simp_all add: lowerASCII_def)
  then show ?thesis by (auto simp: ToLower_def asciiTables_def)
qed

lemma asciiTables_fixed: "ToLower asciiTables (MapToLower asciiTables s) = MapToLower asciiTables s"
proof -
  have m: "MapToLower asciiTables s = map lowerASCII s" by (simp add: asciiTables_def)
  show ?thesis unfolding m ToLower_asciiTables by (simp add: lowerASCII_idem)
qed

text \<open>
  Claim C8. The key is the hexadecimal form of the first 12 bytes of the SHA-256 digest of
  \<open>lower(artist) + "|" + lower(title)\<close>: always 24 hexadecimal digits, a function of the
  lower-cased strings only (so any two inputs with the same lower-case forms have the same
  key), and equal to the key of the lower-cased inputs, for all ASCII strings outright and
  for all strings when the Unicode lower-casing of the Go library is stable under
  \<open>ToLower\<close>.
\<close>

theorem generateKey_case_insensitive:
  "length (generateKey U a t) = 24
   \<and> set (generateKey U a t) \<subseteq> set ''0123456789abcdef''
   \<and> generateKey U a t
       = EncodeToString (take 12 (Sum256 (bytes_of (ToLower U a @ ''|'' @ ToLower U t))))
   \<and> (ToLower U a = ToLower U a' \<and> ToLower U t = ToLower U t'
        \<longrightarrow> generateKey U a t = generateKey U a' t')
   \<and> (isASCII a \<and> isASCII t \<longrightarrow> generateKey U a t = generateKey U (ToLower U a) (ToLower U t))
   \<and> ((\<forall>s. ToLower U (MapToLower U s) = MapToLower U s)
        \<longrightarrow> generateKey U a t = generateKey U (ToLower U a) (ToLower U t))"
proof -
  have fixed: "ToLower U (ToLower U s) = ToLower U s"
    if "\<forall>s. ToLower U (MapToLower U s) = MapToLower U s" for s
  proof (cases "isASCII s")
    case True
    then show ?thesis by (rule ToLower_ascii_fixed)
  next
    case False
    then have "ToLower U s = MapToLower U s" by (simp add: ToLower_def)
    with that show ?thesis by simp
  qed
  have k: "generateKey U x y
       = EncodeToString (take 12 (Sum256 (bytes_of (ToLower U x @ ''|'' @ ToLower U y))))" for x y
    by (simp add: generateKey_def Let_def)
  have hex: "set (generateKey U a t) \<subseteq> set ''0123456789abcdef''"
    unfolding k by (rule set_EncodeToString)
  have var: "ToLower U a = ToLower U a' \<and> ToLower U t = ToLower U t'
        \<longrightarrow> generateKey U a t = generateKey U a' t'"
    unfolding k by simp
  have asc: "isASCII a \<and> isASCII t \<longrightarrow> generateKey U a t = generateKey U (ToLower U a) (ToLower U t)"
    unfolding k by (simp add: ToLower_ascii_fixed)
  have all: "(\<forall>s. ToLower U (MapToLower U s) = MapToLower U s)
        \<longrightarrow> generateKey U a t = generateKey U (ToLower U a) (ToLower U t)"
    unfolding k using fixed by simp
  show ?thesis
    using length_generateKey [of U a t] hex k [of a t] var asc all by blast
qed

theorem generateKey_case_insensitive_witness:
  "generateKey asciiTables ''Abc'' ''X'' = generateKey asciiTables ''abc'' ''x''
   \<and> length (generateKey asciiTables ''Abc'' ''X'') = 24
   \<and> generateKey asciiTables ''Abc'' ''X''
       = generateKey asciiTables (ToLower asciiTables ''Abc'') (ToLower asciiTables ''X'')
   \<and> isASCII ''Abc'' \<and> isASCII ''X''
   \<and> (\<forall>s. ToLower asciiTables (MapToLower asciiTables s) = MapToLower asciiTables s)"
proof -
  have l: "ToLower asciiTables ''Abc'' = ToLower asciiTables ''abc''"
          "ToLower asciiTables ''X'' = ToLower asciiTables ''x''"
    by code_simp+
  have a: "isASCII ''Abc''" "isASCII ''X''" by (simp_all add: isASCII_def)
  note t = generateKey_case_insensitive [of asciiTables "''Abc''" "''X''" "''abc''" "''x''"]
  from t l have "generateKey asciiTables ''Abc'' ''X'' = generateKey asciiTables ''abc'' ''x''"
    by blast
  moreover from t have "length (generateKey asciiTables ''Abc'' ''X'') = 24"
    by blast
  moreover from t a have "generateKey asciiTables ''Abc'' ''X''
       = generateKey asciiTables (ToLower asciiTables ''Abc'') (ToLower asciiTables ''X'')"
    by blast
  ultimately show ?thesis using a asciiTables_fixed by blast
qed

text \<open>
  Claim C1. After \<open>Set\<close> with non-empty artist and title and an entry \<open>e\<close>, whatever the
  outcome of the write to disk, a \<open>Get\<close> of the same artist and title whose clock reading
  is less than thirty days past that of \<open>Set\<close> returns \<open>e\<close> with \<open>Version\<close>,
  \<open>CreatedAt\<close> and \<open>ExpiresAt\<close> as stamped by \<open>Set\<close> and every other field unchanged,
  and leaves the cache and files as they were.
\<close>

theorem Set_Get_roundtrip:
  assumes "artist \<noteq> []" and "title \<noteq> []"
    and "Set U c fs artist title (Some e) now w = (err, c', fs')"
    and "sint now + 2592000 < 2 ^ 63"
    and "sint now1 < sint now + 2592000"
  shows "Get U c' fs' artist title now1 now2 rmOk
         = (Inr (e\<lparr>Version := cacheVersion, CreatedAt := now, ExpiresAt := now + 2592000\<rparr>), c', fs')"
  using assms by (rule Set_then_Get)

theorem Set_Get_roundtrip_witness:
  "Set asciiTables exampleCache Map.empty ''A'' ''T'' (Some exampleEntry) 1700000000 CreateFails
     = (Some ErrIO,
        exampleCache\<lparr>memCache := (memCache exampleCache)(generateKey asciiTables ''A'' ''T'' \<mapsto>
          exampleEntry\<lparr>Version := 1, CreatedAt := 1700000000, ExpiresAt := 1702592000\<rparr>)\<rparr>,
        Map.empty)
   \<and> Get asciiTables
       (exampleCache\<lparr>memCache := (memCache exampleCache)(generateKey asciiTables ''A'' ''T'' \<mapsto>
          exampleEntry\<lparr>Version := 1, CreatedAt := 1700000000, ExpiresAt := 1702592000\<rparr>)\<rparr>)
       Map.empty ''A'' ''T'' 1700000005 1700000005 True
     = (Inr (exampleEntry\<lparr>Version := 1, CreatedAt := 1700000000, ExpiresAt := 1702592000\<rparr>),
        exampleCache\<lparr>memCache := (memCache exampleCache)(generateKey asciiTables ''A'' ''T'' \<mapsto>
          exampleEntry\<lparr>Version := 1, CreatedAt := 1700000000, ExpiresAt := 1702592000\<rparr>)\<rparr>,
        Map.empty)"
proof -
  have s: "Set asciiTables exampleCache Map.empty ''A'' ''T'' (Some exampleEntry) 1700000000 CreateFails
     = (Some ErrIO,
        exampleCache\<lparr>memCache := (memCache exampleCache)(generateKey asciiTables ''A'' ''T'' \<mapsto>
          exampleEntry\<lparr>Version := 1, CreatedAt := 1700000000, ExpiresAt := 1702592000\<rparr>)\<rparr>,
        Map.empty)"
    unfolding Set_def ttl_value
    by (simp add: Let_def exampleCache_def writeToDisk_def cacheVersion_def)
  show ?thesis
    using s Set_Get_roundtrip [OF _ _ s, of 1700000005 1700000005 True]
    by (simp add: cacheVersion_def)
qed


text \<open>
  Claim C5. Whatever field values the caller supplied, the entry \<open>Set\<close> stores for a
  non-empty artist and title has \<open>ExpiresAt = CreatedAt + 2592000\<close> (thirty days in
  seconds; as integers too when the clock is not within thirty days of the end of the
  \<open>int64\<close> range), \<open>CreatedAt\<close> the clock reading and \<open>Version\<close> the current schema
  version; the file a successful write leaves is that entry, and it is the only entry
  \<open>Set\<close> adds to the files. Hence a cache whose entries all satisfy the invariant keeps
  it under \<open>Set\<close> and under any following \<open>Get\<close>, which returns only such entries.
\<close>

theorem Set_stamps:
  assumes ne: "artist \<noteq> []" "title \<noteq> []"
    and s: "Set U c fs artist title (Some e) now w = (err, c', fs')"
  shows "\<exists>e'. memCache c' (generateKey U artist title) = Some e'
           \<and> ExpiresAt e' = CreatedAt e' + 2592000 \<and> Version e' = cacheVersion
           \<and> CreatedAt e' = now \<and> stamped e'
           \<and> (sint now + 2592000 < 2 ^ 63 \<longrightarrow> sint (ExpiresAt e') = sint (CreatedAt e') + 2592000)
           \<and> (basePath c \<noteq> [] \<and> err = None
                \<longrightarrow> fs' (getFilePath c (generateKey U artist title)) = Some (Gob e'))
           \<and> (\<forall>p x. fs' p = Some (Gob x) \<and> fs p \<noteq> Some (Gob x) \<longrightarrow> x = e')
           \<and> (cache_inv c fs \<longrightarrow> cache_inv c' fs')
           \<and> (\<forall>a t n1 n2 rm r c'' fs''.
                 cache_inv c fs \<and> Get U c' fs' a t n1 n2 rm = (r, c'', fs'')
                 \<longrightarrow> cache_inv c'' fs'' \<and> (\<forall>x. r = Inr x \<longrightarrow> stamped x))"
proof -
  let ?e = "e\<lparr>Version := cacheVersion, CreatedAt := now, ExpiresAt := now + 2592000\<rparr>"
  let ?k = "generateKey U artist title"
  have c': "memCache c' ?k = Some ?e" using Set_result(1) [OF ne s] by simp
  have ov: "sint now + 2592000 < 2 ^ 63 \<longrightarrow> sint (ExpiresAt ?e) = sint (CreatedAt ?e) + 2592000"
  proof
    assume a: "sint now + 2592000 < 2 ^ 63"
    have "- (2 ^ 63) \<le> sint now" using sint_ge [of now] by simp
    then have "sint (now + 2592000) = sint now + sint (2592000 :: int64)"
      using a by (intro sint_add_noov) simp_all
    then show "sint (ExpiresAt ?e) = sint (CreatedAt ?e) + 2592000" by simp
  qed
  have wr: "basePath c \<noteq> [] \<and> err = None \<longrightarrow> fs' (getFilePath c ?k) = Some (Gob ?e)"
    using Set_result(3) [OF ne s] writeToDisk_ok [of fs "getFilePath c ?k" ?e w fs'] by auto
  have new: "\<forall>p x. fs' p = Some (Gob x) \<and> fs p \<noteq> Some (Gob x) \<longrightarrow> x = ?e"
  proof (cases "basePath c = []")
    case True
    then show ?thesis using Set_result(2) [OF ne s] by simp
  next
    case False
    then have "writeToDisk fs (getFilePath c ?k) ?e w = (err, fs')"
      using Set_result(3) [OF ne s] by simp
    then show ?thesis using writeToDisk_files by blast
  qed
  have inv: "cache_inv c fs \<longrightarrow> cache_inv c' fs'"
    using Set_preserves_inv [OF ne s] by blast
  have get: "\<forall>a t n1 n2 rm r c'' fs''.
                 cache_inv c fs \<and> Get U c' fs' a t n1 n2 rm = (r, c'', fs'')
                 \<longrightarrow> cache_inv c'' fs'' \<and> (\<forall>x. r = Inr x \<longrightarrow> stamped x)"
    using inv Get_preserves_inv by blast
  have st: "stamped ?e" by (rule stamped_Set_entry)
  have f: "ExpiresAt ?e = CreatedAt ?e + 2592000 \<and> Version ?e = cacheVersion \<and> CreatedAt ?e = now"
    by simp
  show ?thesis
    using c' f st ov wr new inv get by blast
qed

theorem Set_stamps_witness:
  "Set asciiTables exampleCache Map.empty ''A'' ''T'' (Some exampleEntry) 1700000000 WriteOk
     = (None,
        exampleCache\<lparr>memCache := (memCache exampleCache)(generateKey asciiTables ''A'' ''T'' \<mapsto>
          exampleEntry\<lparr>Version := 1, CreatedAt := 1700000000, ExpiresAt := 1702592000\<rparr>)\<rparr>,
        (Map.empty(getFilePath exampleCache (generateKey asciiTables ''A'' ''T'') @ ''.tmp'' := None))
          (getFilePath exampleCache (generateKey asciiTables ''A'' ''T'') \<mapsto>
             Gob (exampleEntry\<lparr>Version := 1, CreatedAt := 1700000000, ExpiresAt := 1702592000\<rparr>)))
   \<and> cache_inv exampleCache Map.empty
   \<and> (\<exists>e'. memCache (exampleCache\<lparr>memCache := (memCache exampleCache)(generateKey asciiTables ''A'' ''T'' \<mapsto>
          exampleEntry\<lparr>Version := 1, CreatedAt := 1700000000, ExpiresAt := 1702592000\<rparr>)\<rparr>)
            (generateKey asciiTables ''A'' ''T'') = Some e'
          \<and> ExpiresAt e' = CreatedAt e' + 2592000 \<and> Version e' = cacheVersion
          \<and> CreatedAt e' = 1700000000)
   \<and> cache_inv
        (exampleCache\<lparr>memCache := (memCache exampleCache)(generateKey asciiTables ''A'' ''T'' \<mapsto>
          exampleEntry\<lparr>Version := 1, CreatedAt := 1700000000, ExpiresAt := 1702592000\<rparr>)\<rparr>)
        ((Map.empty(getFilePath exampleCache (generateKey asciiTables ''A'' ''T'') @ ''.tmp'' := None))
          (getFilePath exampleCache (generateKey asciiTables ''A'' ''T'') \<mapsto>
             Gob (exampleEntry\<lparr>Version := 1, CreatedAt := 1700000000, ExpiresAt := 1702592000\<rparr>)))"
proof -
  have s: "Set asciiTables exampleCache Map.empty ''A'' ''T'' (Some exampleEntry) 1700000000 WriteOk
     = (None,
        exampleCache\<lparr>memCache := (memCache exampleCache)(generateKey asciiTables ''A'' ''T'' \<mapsto>
          exampleEntry\<lparr>Version := 1, CreatedAt := 1700000000, ExpiresAt := 1702592000\<rparr>)\<rparr>,
        (Map.empty(getFilePath exampleCache (generateKey asciiTables ''A'' ''T'') @ ''.tmp'' := None))
          (getFilePath exampleCache (generateKey asciiTables ''A'' ''T'') \<mapsto>
             Gob (exampleEntry\<lparr>Version := 1, CreatedAt := 1700000000, ExpiresAt := 1702592000\<rparr>)))"
    unfolding Set_def ttl_value
    by (simp add: Let_def exampleCache_def writeToDisk_def cacheVersion_def)
  have i: "cache_inv exampleCache Map.empty"
    by (simp add: cache_inv_def exampleCache_def)
  have ne: "''A'' \<noteq> []" "''T'' \<noteq> []" by simp_all
  show ?thesis
    using s i Set_stamps [OF ne s] by blast
qed


lemma Get_disk_degraded: "basePath c = [] \<Longrightarrow> Get_disk c fs key now rmOk = (Inl ErrCacheMiss, c, fs)"
  by (simp add: Get_disk_def)

lemma Get_disk_missing:
  "basePath c \<noteq> [] \<Longrightarrow> fs (getFilePath c key) = None
   \<Longrightarrow> Get_disk c fs key now rmOk = (Inl ErrCacheMiss, c, fs)"
  by (simp add: Get_disk_def readFromDisk_def Let_def)

lemma Get_disk_unreadable:
  "basePath c \<noteq> [] \<Longrightarrow> fs (getFilePath c key) = Some Unreadable
   \<Longrightarrow> Get_disk c fs key now rmOk = (Inl ErrIO, c, fs)"
  by (simp add: Get_disk_def readFromDisk_def Let_def)

lemma Get_disk_garbage:
  "basePath c \<noteq> [] \<Longrightarrow> fs (getFilePath c key) = Some Garbage
   \<Longrightarrow> Get_disk c fs key now rmOk = (Inl ErrCacheCorrupt, c, fs)"
  by (simp add: Get_disk_def readFromDisk_def Let_def)

lemma Get_disk_version:
  "basePath c \<noteq> [] \<Longrightarrow> fs (getFilePath c key) = Some (Gob e) \<Longrightarrow> Version e \<noteq> cacheVersion
   \<Longrightarrow> Get_disk c fs key now rmOk = (Inl ErrCacheCorrupt, c, Remove fs (getFilePath c key) rmOk)"
  by (simp add: Get_disk_def readFromDisk_def Let_def)

lemma Get_disk_expired:
  "basePath c \<noteq> [] \<Longrightarrow> fs (getFilePath c key) = Some (Gob e) \<Longrightarrow> Version e = cacheVersion
   \<Longrightarrow> ExpiresAt e \<le>s now
   \<Longrightarrow> Get_disk c fs key now rmOk = (Inl ErrCacheExpired, c, Remove fs (getFilePath c key) rmOk)"
  by (simp add: Get_disk_def readFromDisk_def Let_def)

lemma Get_disk_valid:
  "basePath c \<noteq> [] \<Longrightarrow> fs (getFilePath c key) = Some (Gob e) \<Longrightarrow> Version e = cacheVersion
   \<Longrightarrow> now <s ExpiresAt e
   \<Longrightarrow> Get_disk c fs key now rmOk = (Inr e, c\<lparr>memCache := (memCache c)(key \<mapsto> e)\<rparr>, fs)"
  by (simp add: Get_disk_def readFromDisk_def Let_def not_sle_iff [symmetric])

lemma getFilePath_evict:
  "getFilePath (c\<lparr>memCache := m\<rparr>) key = getFilePath c key"
  by (simp add: getFilePath_def)

text \<open>
  Claim C4. With \<open>key\<close> the cache key, \<open>path\<close> its file and \<open>c0\<close> the cache without a
  memory entry for the key: \<open>Get\<close> returns only entries whose \<open>ExpiresAt\<close> is later than
  the clock reading of the check that let them through; an empty artist or title is a
  miss that changes nothing; an unexpired memory entry is returned; otherwise (no memory
  entry, or an expired one, which is dropped from the map) the result is that of the file
  tier: a miss without a cache directory or without the file, cache-corrupt for a file
  that does not decode (left in place) or decodes with another version (removed),
  cache-expired for an expired file (removed), and for a valid unexpired file the entry,
  stored in the memory map. The removals take effect when the operating system carries
  them out (\<open>rmOk\<close>).
\<close>

theorem Get_taxonomy:
  "(let key = generateKey U artist title;
        path = getFilePath c key;
        c0 = c\<lparr>memCache := (memCache c)(key := None)\<rparr>;
        got = Get U c fs artist title now1 now2 rmOk
    in (\<forall>e c' fs'. got = (Inr e, c', fs') \<longrightarrow> now1 <s ExpiresAt e \<or> now2 <s ExpiresAt e)
     \<and> (artist = [] \<or> title = [] \<longrightarrow> got = (Inl ErrCacheMiss, c, fs))
     \<and> (artist \<noteq> [] \<and> title \<noteq> [] \<longrightarrow>
          (\<forall>e. memCache c key = Some e \<and> now1 <s ExpiresAt e \<longrightarrow> got = (Inr e, c, fs))
        \<and> (memCache c key = None \<or> (\<exists>x. memCache c key = Some x \<and> \<not> now1 <s ExpiresAt x) \<longrightarrow>
             Get_disk c0 fs key now2 rmOk = got
           \<and> (basePath c = [] \<longrightarrow> got = (Inl ErrCacheMiss, c0, fs))
           \<and> (basePath c \<noteq> [] \<longrightarrow>
                (fs path = None \<longrightarrow> got = (Inl ErrCacheMiss, c0, fs))
              \<and> (fs path = Some Unreadable \<longrightarrow> got = (Inl ErrIO, c0, fs))
              \<and> (fs path = Some Garbage \<longrightarrow> got = (Inl ErrCacheCorrupt, c0, fs))
              \<and> (\<forall>e. fs path = Some (Gob e) \<and> Version e \<noteq> cacheVersion \<longrightarrow>
                     got = (Inl ErrCacheCorrupt, c0, Remove fs path rmOk))
              \<and> (\<forall>e. fs path = Some (Gob e) \<and> Version e = cacheVersion \<and> ExpiresAt e \<le>s now2 \<longrightarrow>
                     got = (Inl ErrCacheExpired, c0, Remove fs path rmOk))
              \<and> (\<forall>e. fs path = Some (Gob e) \<and> Version e = cacheVersion \<and> now2 <s ExpiresAt e \<longrightarrow>
                     got = (Inr e, c0\<lparr>memCache := (memCache c0)(key \<mapsto> e)\<rparr>, fs))
              \<and> (rmOk \<longrightarrow> Remove fs path rmOk path = None)))))"
proof -
  let ?key = "generateKey U artist title"
  let ?path = "getFilePath c ?key"
  let ?c0 = "c\<lparr>memCache := (memCache c)(?key := None)\<rparr>"
  let ?got = "Get U c fs artist title now1 now2 rmOk"
  have p: "getFilePath ?c0 ?key = ?path" by (rule getFilePath_evict)
  have b: "basePath ?c0 = basePath c" by simp
  have a: "\<forall>e c' fs'. ?got = (Inr e, c', fs') \<longrightarrow> now1 <s ExpiresAt e \<or> now2 <s ExpiresAt e"
    using Get_unexpired by blast
  have e: "artist = [] \<or> title = [] \<longrightarrow> ?got = (Inl ErrCacheMiss, c, fs)"
    by (auto simp: Get_def)
  have h: "\<forall>e. memCache c ?key = Some e \<and> now1 <s ExpiresAt e \<longrightarrow> ?got = (Inr e, c, fs)"
    if "artist \<noteq> [] \<and> title \<noteq> []"
    using that Get_mem_hit by blast
  have d: "Get_disk ?c0 fs ?key now2 rmOk = ?got
           \<and> (basePath c = [] \<longrightarrow> ?got = (Inl ErrCacheMiss, ?c0, fs))
           \<and> (basePath c \<noteq> [] \<longrightarrow>
                (fs ?path = None \<longrightarrow> ?got = (Inl ErrCacheMiss, ?c0, fs))
              \<and> (fs ?path = Some Unreadable \<longrightarrow> ?got = (Inl ErrIO, ?c0, fs))
              \<and> (fs ?path = Some Garbage \<longrightarrow> ?got = (Inl ErrCacheCorrupt, ?c0, fs))
              \<and> (\<forall>e. fs ?path = Some (Gob e) \<and> Version e \<noteq> cacheVersion \<longrightarrow>
                     ?got = (Inl ErrCacheCorrupt, ?c0, Remove fs ?path rmOk))
              \<and> (\<forall>e. fs ?path = Some (Gob e) \<and> Version e = cacheVersion \<and> ExpiresAt e \<le>s now2 \<longrightarrow>
                     ?got = (Inl ErrCacheExpired, ?c0, Remove fs ?path rmOk))
              \<and> (\<forall>e. fs ?path = Some (Gob e) \<and> Version e = cacheVersion \<and> now2 <s ExpiresAt e \<longrightarrow>
                     ?got = (Inr e, ?c0\<lparr>memCache := (memCache ?c0)(?key \<mapsto> e)\<rparr>, fs))
              \<and> (rmOk \<longrightarrow> Remove fs ?path rmOk ?path = None))"
    if ne: "artist \<noteq> [] \<and> title \<noteq> []"
      and m: "memCache c ?key = None \<or> (\<exists>x. memCache c ?key = Some x \<and> \<not> now1 <s ExpiresAt x)"
  proof -
    have g: "?got = Get_disk ?c0 fs ?key now2 rmOk"
      using ne m Get_falls_to_disk [of artist title c U now1 fs now2 rmOk] by blast
    show ?thesis
      unfolding g
      using Get_disk_degraded [of ?c0 fs ?key now2 rmOk]
        Get_disk_missing [of ?c0 fs ?key now2 rmOk]
        Get_disk_unreadable [of ?c0 fs ?key now2 rmOk]
        Get_disk_garbage [of ?c0 fs ?key now2 rmOk]
        Get_disk_version [of ?c0 fs ?key _ now2 rmOk]
        Get_disk_expired [of ?c0 fs ?key _ now2 rmOk]
        Get_disk_valid [of ?c0 fs ?key _ now2 rmOk]
      unfolding p b
      by (auto simp: Remove_def)
  qed
  show ?thesis
    unfolding Let_def using a e h d by blast
qed

theorem Get_taxonomy_witness:
  "Get asciiTables exampleCache Map.empty [] ''T'' 1700000005 1700000005 True
     = (Inl ErrCacheMiss, exampleCache, Map.empty)
   \<and> Get asciiTables (exampleCache\<lparr>memCache := [exampleKey \<mapsto> freshEntry]\<rparr>) Map.empty
        ''A'' ''T'' 1700000005 1700000005 True
     = (Inr freshEntry, exampleCache\<lparr>memCache := [exampleKey \<mapsto> freshEntry]\<rparr>, Map.empty)
   \<and> Get asciiTables (exampleCache\<lparr>memCache := [exampleKey \<mapsto> staleEntry]\<rparr>)
        [examplePath \<mapsto> Gob staleEntry] ''A'' ''T'' 1700000005 1700000005 True
     = (Inl ErrCacheExpired, exampleCache, Map.empty)
   \<and> Get asciiTables (degradedCache\<lparr>memCache := [exampleKey \<mapsto> staleEntry]\<rparr>)
        Map.empty ''A'' ''T'' 1700000005 1700000005 True
     = (Inl ErrCacheMiss, degradedCache, Map.empty)
   \<and> Get asciiTables exampleCache Map.empty ''A'' ''T'' 1700000005 1700000005 True
     = (Inl ErrCacheMiss, exampleCache, Map.empty)
   \<and> Get asciiTables exampleCache [examplePath \<mapsto> Unreadable] ''A'' ''T'' 1700000005 1700000005 True
     = (Inl ErrIO, exampleCache, [examplePath \<mapsto> Unreadable])
   \<and> Get asciiTables exampleCache [examplePath \<mapsto> Garbage] ''A'' ''T'' 1700000005 1700000005 True
     = (Inl ErrCacheCorrupt, exampleCache, [examplePath \<mapsto> Garbage])
   \<and> Get asciiTables exampleCache [examplePath \<mapsto> Gob exampleEntry] ''A'' ''T''
        1700000005 1700000005 True
     = (Inl ErrCacheCorrupt, exampleCache, Map.empty)
   \<and> Get asciiTables exampleCache [examplePath \<mapsto> Gob freshEntry] ''A'' ''T''
        1700000005 1700000005 True
     = (Inr freshEntry, exampleCache\<lparr>memCache := [exampleKey \<mapsto> freshEntry]\<rparr>,
        [examplePath \<mapsto> Gob freshEntry])"
proof -
  have ex: "memCache exampleCache = Map.empty" "basePath exampleCache \<noteq> []"
    "memCache degradedCache = Map.empty" "basePath degradedCache = []"
    "exampleCache\<lparr>memCache := Map.empty\<rparr> = exampleCache"
    "degradedCache\<lparr>memCache := Map.empty\<rparr> = degradedCache"
    by (simp_all add: exampleCache_def degradedCache_def)
  have en: "Version freshEntry = cacheVersion" "1700000005 <s ExpiresAt freshEntry"
    "Version staleEntry = cacheVersion" "\<not> 1700000005 <s ExpiresAt staleEntry"
    "ExpiresAt staleEntry \<le>s 1700000005" "Version exampleEntry \<noteq> cacheVersion"
    by (simp_all add: freshEntry_def staleEntry_def exampleEntry_def cacheVersion_def)
  have pa: "getFilePath exampleCache (generateKey asciiTables ''A'' ''T'') = examplePath"
    "generateKey asciiTables ''A'' ''T'' = exampleKey"
    "getFilePath (exampleCache\<lparr>memCache := m\<rparr>) exampleKey = examplePath"
    "getFilePath exampleCache exampleKey = examplePath" for m
    by (simp_all add: examplePath_def exampleKey_def getFilePath_def)
  have 1: "Get asciiTables exampleCache Map.empty [] ''T'' 1700000005 1700000005 True
     = (Inl ErrCacheMiss, exampleCache, Map.empty)"
    using Get_taxonomy [of asciiTables "[]" "''T''" exampleCache Map.empty 1700000005 1700000005 True]
    by (simp add: Let_def)
  have 2: "Get asciiTables (exampleCache\<lparr>memCache := [exampleKey \<mapsto> freshEntry]\<rparr>) Map.empty
        ''A'' ''T'' 1700000005 1700000005 True
     = (Inr freshEntry, exampleCache\<lparr>memCache := [exampleKey \<mapsto> freshEntry]\<rparr>, Map.empty)"
    using Get_taxonomy [of asciiTables "''A''" "''T''"
        "exampleCache\<lparr>memCache := [exampleKey \<mapsto> freshEntry]\<rparr>" Map.empty
        1700000005 1700000005 True] en
    by (simp add: Let_def pa)
  have 3: "Get asciiTables (exampleCache\<lparr>memCache := [exampleKey \<mapsto> staleEntry]\<rparr>)
        [examplePath \<mapsto> Gob staleEntry] ''A'' ''T'' 1700000005 1700000005 True
     = (Inl ErrCacheExpired, exampleCache, Map.empty)"
    using Get_taxonomy [of asciiTables "''A''" "''T''"
        "exampleCache\<lparr>memCache := [exampleKey \<mapsto> staleEntry]\<rparr>" "[examplePath \<mapsto> Gob staleEntry]"
        1700000005 1700000005 True] en ex
    by (simp add: Let_def pa Remove_def)
  have 4: "Get asciiTables (degradedCache\<lparr>memCache := [exampleKey \<mapsto> staleEntry]\<rparr>)
        Map.empty ''A'' ''T'' 1700000005 1700000005 True
     = (Inl ErrCacheMiss, degradedCache, Map.empty)"
    using Get_taxonomy [of asciiTables "''A''" "''T''"
        "degradedCache\<lparr>memCache := [exampleKey \<mapsto> staleEntry]\<rparr>" Map.empty
        1700000005 1700000005 True] en ex
    by (simp add: Let_def pa)
  have 5: "Get asciiTables exampleCache Map.empty ''A'' ''T'' 1700000005 1700000005 True
     = (Inl ErrCacheMiss, exampleCache, Map.empty)"
    using Get_taxonomy [of asciiTables "''A''" "''T''" exampleCache Map.empty
        1700000005 1700000005 True] ex
    by (simp add: Let_def pa)
  have 6: "Get asciiTables exampleCache [examplePath \<mapsto> Unreadable] ''A'' ''T'' 1700000005 1700000005 True
     = (Inl ErrIO, exampleCache, [examplePath \<mapsto> Unreadable])"
    using Get_taxonomy [of asciiTables "''A''" "''T''" exampleCache "[examplePath \<mapsto> Unreadable]"
        1700000005 1700000005 True] ex
    by (simp add: Let_def pa)
  have 7: "Get asciiTables exampleCache [examplePath \<mapsto> Garbage] ''A'' ''T'' 1700000005 1700000005 True
     = (Inl ErrCacheCorrupt, exampleCache, [examplePath \<mapsto> Garbage])"
    using Get_taxonomy [of asciiTables "''A''" "''T''" exampleCache "[examplePath \<mapsto> Garbage]"
        1700000005 1700000005 True] ex
    by (simp add: Let_def pa)
  have 8: "Get asciiTables exampleCache [examplePath \<mapsto> Gob exampleEntry] ''A'' ''T''
        1700000005 1700000005 True
     = (Inl ErrCacheCorrupt, exampleCache, Map.empty)"
    using Get_taxonomy [of asciiTables "''A''" "''T''" exampleCache "[examplePath \<mapsto> Gob exampleEntry]"
        1700000005 1700000005 True] ex en
    by (simp add: Let_def pa Remove_def)
  have 9: "Get asciiTables exampleCache [examplePath \<mapsto> Gob freshEntry] ''A'' ''T''
        1700000005 1700000005 True
     = (Inr freshEntry, exampleCache\<lparr>memCache := [exampleKey \<mapsto> freshEntry]\<rparr>,
        [examplePath \<mapsto> Gob freshEntry])"
    using Get_taxonomy [of asciiTables "''A''" "''T''" exampleCache "[examplePath \<mapsto> Gob freshEntry]"
        1700000005 1700000005 True] ex en
    by (simp add: Let_def pa)
  show ?thesis using 1 2 3 4 5 6 7 8 9 by blast
qed



section \<open>Parsing and line lookup\<close>

lemma findLoop_takeWhile:
  "findLoop i index ls pos =
     (if takeWhile (\<lambda>l. TimeSeconds l \<le> pos) ls = [] then index
      else int i + int (length (takeWhile (\<lambda>l. TimeSeconds l \<le> pos) ls)) - 1)"
  by (induction ls arbitrary: i index) auto

lemma FindCurrentLineIndex_takeWhile:
  "FindCurrentLineIndex lines pos = int (length (takeWhile (\<lambda>l. TimeSeconds l \<le> pos) lines)) - 1"
  by (cases lines) (simp_all add: FindCurrentLineIndex_def findLoop_takeWhile)

lemma before_cut:
  assumes "j < length (takeWhile (\<lambda>l. TimeSeconds l \<le> pos) lines)"
  shows "TimeSeconds (lines ! j) \<le> pos"
proof -
  have "takeWhile (\<lambda>l. TimeSeconds l \<le> pos) lines ! j = lines ! j"
    using assms by (rule takeWhile_nth)
  moreover have "takeWhile (\<lambda>l. TimeSeconds l \<le> pos) lines ! j
      \<in> set (takeWhile (\<lambda>l. TimeSeconds l \<le> pos) lines)"
    using assms by (rule nth_mem)
  ultimately show ?thesis using set_takeWhileD by fastforce
qed

lemma after_cut:
  assumes s: "sorted (map TimeSeconds lines)"
    and j: "length (takeWhile (\<lambda>l. TimeSeconds l \<le> pos) lines) \<le> j" "j < length lines"
  shows "pos < TimeSeconds (lines ! j)"
proof -
  let ?n = "length (takeWhile (\<lambda>l. TimeSeconds l \<le> pos) lines)"
  have n: "?n < length lines" using j by simp
  then have "\<not> TimeSeconds (lines ! ?n) \<le> pos" by (rule nth_length_takeWhile)
  moreover have "map TimeSeconds lines ! ?n \<le> map TimeSeconds lines ! j"
    using s j by (intro sorted_nth_mono) simp_all
  ultimately show ?thesis using n j by simp
qed

lemma FindCurrentLineIndex_sorted:
  assumes s: "sorted (map TimeSeconds lines)"
  shows "- 1 \<le> FindCurrentLineIndex lines pos \<and> FindCurrentLineIndex lines pos < int (length lines)
     \<and> (\<forall>j < length lines. (TimeSeconds (lines ! j) \<le> pos) = (int j \<le> FindCurrentLineIndex lines pos))"
proof -
  let ?n = "length (takeWhile (\<lambda>l. TimeSeconds l \<le> pos) lines)"
  have r: "FindCurrentLineIndex lines pos = int ?n - 1" by (rule FindCurrentLineIndex_takeWhile)
  have le: "?n \<le> length lines" by (rule length_takeWhile_le)
  have "(TimeSeconds (lines ! j) \<le> pos) = (int j \<le> int ?n - 1)" if "j < length lines" for j
  proof (cases "j < ?n")
    case True
    then show ?thesis using before_cut [of j pos lines] by simp
  next
    case False
    then have "pos < TimeSeconds (lines ! j)" using after_cut [OF s _ that, of pos] by simp
    with False show ?thesis by simp
  qed
  then show ?thesis using r le by simp
qed

text \<open>
  Claim C9. \<open>ParseSynced\<close> applied to the two-line text \<open>[00:01.50]Hello\<close>,
  \<open>[00:03.00]World\<close> yields exactly the timed lines (1.5, Hello) and (3, World) in source
  order, and on them position 2 gives index 0, position 0.5 gives -1 and position 10
  gives 1. For every chronologically ordered sequence and every position the result of
  \<open>FindCurrentLineIndex\<close> lies between -1 and the last index, and the lines up to it are
  exactly those whose time is at most the position: it is the index of the last such
  line, and -1 when the position precedes every time.
\<close>

theorem ParseSynced_FindCurrentLineIndex:
  "ParseSynced ext (''[00:01.50]Hello'' @ [CHR 0x0A] @ ''[00:03.00]World'')
     = [\<lparr>TimeSeconds = 3 / 2, Text = ''Hello''\<rparr>, \<lparr>TimeSeconds = 3, Text = ''World''\<rparr>]
   \<and> FindCurrentLineIndex
         [\<lparr>TimeSeconds = 3 / 2, Text = ''Hello''\<rparr>, \<lparr>TimeSeconds = 3, Text = ''World''\<rparr>] 2 = 0
   \<and> FindCurrentLineIndex
         [\<lparr>TimeSeconds = 3 / 2, Text = ''Hello''\<rparr>, \<lparr>TimeSeconds = 3, Text = ''World''\<rparr>] (1 / 2) = - 1
   \<and> FindCurrentLineIndex
         [\<lparr>TimeSeconds = 3 / 2, Text = ''Hello''\<rparr>, \<lparr>TimeSeconds = 3, Text = ''World''\<rparr>] 10 = 1
   \<and> (sorted (map TimeSeconds lines) \<longrightarrow>
        - 1 \<le> FindCurrentLineIndex lines pos
        \<and> FindCurrentLineIndex lines pos < int (length lines)
        \<and> (\<forall>j < length lines.
              (TimeSeconds (lines ! j) \<le> pos) = (int j \<le> FindCurrentLineIndex lines pos)))"
proof -
  have p: "ParseSynced ext (''[00:01.50]Hello'' @ [CHR 0x0A] @ ''[00:03.00]World'')
     = [\<lparr>TimeSeconds = 3 / 2, Text = ''Hello''\<rparr>, \<lparr>TimeSeconds = 3, Text = ''World''\<rparr>]"
    by code_simp
  have f: "FindCurrentLineIndex
         [\<lparr>TimeSeconds = 3 / 2, Text = ''Hello''\<rparr>, \<lparr>TimeSeconds = 3, Text = ''World''\<rparr>] 2 = 0"
    "FindCurrentLineIndex
         [\<lparr>TimeSeconds = 3 / 2, Text = ''Hello''\<rparr>, \<lparr>TimeSeconds = 3, Text = ''World''\<rparr>] (1 / 2) = - 1"
    "FindCurrentLineIndex
         [\<lparr>TimeSeconds = 3 / 2, Text = ''Hello''\<rparr>, \<lparr>TimeSeconds = 3, Text = ''World''\<rparr>] 10 = 1"
    by (simp_all add: FindCurrentLineIndex_def)
  show ?thesis
    using p f FindCurrentLineIndex_sorted [of lines pos] by blast
qed

theorem ParseSynced_FindCurrentLineIndex_witness:
  "sorted (map TimeSeconds
      [\<lparr>TimeSeconds = 3 / 2, Text = ''Hello''\<rparr>, \<lparr>TimeSeconds = 3, Text = ''World''\<rparr>])
   \<and> FindCurrentLineIndex
         [\<lparr>TimeSeconds = 3 / 2, Text = ''Hello''\<rparr>, \<lparr>TimeSeconds = 3, Text = ''World''\<rparr>] 2 = 0
   \<and> TimeSeconds ([\<lparr>TimeSeconds = 3 / 2, Text = ''Hello''\<rparr>, \<lparr>TimeSeconds = 3, Text = ''World''\<rparr>] ! 0) \<le> 2
   \<and> \<not> TimeSeconds ([\<lparr>TimeSeconds = 3 / 2, Text = ''Hello''\<rparr>, \<lparr>TimeSeconds = 3, Text = ''World''\<rparr>] ! 1) \<le> 2"
proof -
  have s: "sorted (map TimeSeconds
      [\<lparr>TimeSeconds = 3 / 2, Text = ''Hello''\<rparr>, \<lparr>TimeSeconds = 3, Text = ''World''\<rparr>])"
    by simp
  note t = ParseSynced_FindCurrentLineIndex [of "\<lambda>s. None"
      "[\<lparr>TimeSeconds = 3 / 2, Text = ''Hello''\<rparr>, \<lparr>TimeSeconds = 3, Text = ''World''\<rparr>]" 2]
  from t have z: "FindCurrentLineIndex
         [\<lparr>TimeSeconds = 3 / 2, Text = ''Hello''\<rparr>, \<lparr>TimeSeconds = 3, Text = ''World''\<rparr>] 2 = 0"
    by blast
  from t s have a: "\<forall>j < length [\<lparr>TimeSeconds = 3 / 2, Text = ''Hello''\<rparr>, \<lparr>TimeSeconds = 3, Text = ''World''\<rparr>].
      (TimeSeconds ([\<lparr>TimeSeconds = 3 / 2, Text = ''Hello''\<rparr>, \<lparr>TimeSeconds = 3, Text = ''World''\<rparr>] ! j) \<le> 2)
        = (int j \<le> FindCurrentLineIndex
         [\<lparr>TimeSeconds = 3 / 2, Text = ''Hello''\<rparr>, \<lparr>TimeSeconds = 3, Text = ''World''\<rparr>] 2)"
    by blast
  have "TimeSeconds ([\<lparr>TimeSeconds = 3 / 2, Text = ''Hello''\<rparr>, \<lparr>TimeSeconds = 3, Text = ''World''\<rparr>] ! 0) \<le> 2"
    using a [rule_format, of 0] unfolding z by simp
  moreover have "\<not> TimeSeconds ([\<lparr>TimeSeconds = 3 / 2, Text = ''Hello''\<rparr>, \<lparr>TimeSeconds = 3, Text = ''World''\<rparr>] ! 1) \<le> 2"
    using a [rule_format, of 1] unfolding z by simp
  ultimately show ?thesis using s z by blast
qed


section \<open>The request loop\<close>




lemma fetchLoop_requests_le:
  "length (snd (snd (snd (fetchLoop E U tr c fs q idx lastErr sts)))) \<le> length sts"
proof (induction sts arbitrary: q idx lastErr)
  case Nil
  then show ?case by simp
next
  case (Cons st rest)
  have w: "length (snd (snd (snd (withRequest x r)))) = Suc (length (snd (snd (snd r))))" for x r
    by (cases r) (simp add: withRequest_def)
  show ?case
    using Cons.IH [of "buildQuery q st" "Suc idx"]
    by (auto simp: Let_def w split: sum.splits prod.splits)
qed




lemma Fetch_to_loop:
  assumes "Title tr \<noteq> []" "Artist tr \<noteq> []" "baseURL \<noteq> []"
    and "normalizeString (Title tr) \<noteq> []" "normalizeString (Artist tr) \<noteq> []"
    and "Get U c fs (Artist tr) (Title tr) (getNow1 E) (getNow2 E) (removeOk E) = (Inl e, c1, fs1)"
    and "urlParse E baseURL = Some q0"
  shows "Fetch E U c fs baseURL (Some tr) = fetchLoop E U tr c1 fs1 q0 0 None (uniqueStrategies U tr)"
  using assms by (simp add: Fetch_def)


lemma normalize_nonempty: "normalizeString s \<noteq> [] \<Longrightarrow> s \<noteq> []"
proof (rule ccontr)
  assume a: "normalizeString s \<noteq> []" and "\<not> s \<noteq> []"
  then have "s = []" by simp
  moreover have "normalizeString [] = []" by code_simp
  ultimately show False using a by simp
qed





lemma example_normalized:
  "normalizeString (Title exampleTrack) \<noteq> []" "normalizeString (Artist exampleTrack) \<noteq> []"
  by code_simp+

lemma Get_degraded_miss:
  "Get asciiTables degradedCache Map.empty (Artist exampleTrack) (Title exampleTrack)
     1700000005 1700000005 True = (Inl ErrCacheMiss, degradedCache, Map.empty)"
  by (simp add: Get_def Get_disk_def degradedCache_def exampleTrack_def Let_def)

lemma Get_example_miss:
  "Get asciiTables exampleCache Map.empty (Artist exampleTrack) (Title exampleTrack)
     1700000005 1700000005 True = (Inl ErrCacheMiss, exampleCache, Map.empty)"
  by (simp add: Get_def Get_disk_def readFromDisk_def exampleCache_def exampleTrack_def Let_def)







text \<open>
  Claim C3, evaluated on the code. For the track (A, T), album Al, duration 200, and a
  service that has no lyrics, the unique strategies are the normalized names with album
  and duration, with the duration only, with neither, and the lower-cased names. The
  requests issued for them all carry \<open>album_name=Al\<close> and \<open>duration=200\<close>: the loop reads
  the query back from the URL it wrote in the previous iteration, so the parameters of the
  first strategy stay, the first three requests are identical, and no request is the one
  its strategy describes (the last list, built from an empty query each time).
\<close>

theorem Fetch_requests_keep_parameters:
  "uniqueStrategies asciiTables exampleTrack =
     [\<lparr>s_artist = ''A'', s_title = ''T'', s_album = ''Al'', s_duration = 200\<rparr>,
      \<lparr>s_artist = ''A'', s_title = ''T'', s_album = [], s_duration = 200\<rparr>,
      \<lparr>s_artist = ''A'', s_title = ''T'', s_album = [], s_duration = 0\<rparr>,
      \<lparr>s_artist = ''a'', s_title = ''t'', s_album = [], s_duration = 0\<rparr>]
   \<and> snd (snd (snd (Fetch notFoundEnv asciiTables degradedCache Map.empty
        ''https://lrclib.net/api/get'' (Some exampleTrack)))) =
     [[(''artist_name'', [''A'']), (''track_name'', [''T'']), (''album_name'', [''Al'']),
       (''duration'', [''200''])],
      [(''artist_name'', [''A'']), (''track_name'', [''T'']), (''album_name'', [''Al'']),
       (''duration'', [''200''])],
      [(''artist_name'', [''A'']), (''track_name'', [''T'']), (''album_name'', [''Al'']),
       (''duration'', [''200''])],
      [(''artist_name'', [''a'']), (''track_name'', [''t'']), (''album_name'', [''Al'']),
       (''duration'', [''200''])]]
   \<and> map (buildQuery []) (uniqueStrategies asciiTables exampleTrack) =
     [[(''artist_name'', [''A'']), (''track_name'', [''T'']), (''album_name'', [''Al'']),
       (''duration'', [''200''])],
      [(''artist_name'', [''A'']), (''track_name'', [''T'']), (''duration'', [''200''])],
      [(''artist_name'', [''A'']), (''track_name'', [''T''])],
      [(''artist_name'', [''a'']), (''track_name'', [''t''])]]"
proof -
  have u: "uniqueStrategies asciiTables exampleTrack =
     [\<lparr>s_artist = ''A'', s_title = ''T'', s_album = ''Al'', s_duration = 200\<rparr>,
      \<lparr>s_artist = ''A'', s_title = ''T'', s_album = [], s_duration = 200\<rparr>,
      \<lparr>s_artist = ''A'', s_title = ''T'', s_album = [], s_duration = 0\<rparr>,
      \<lparr>s_artist = ''a'', s_title = ''t'', s_album = [], s_duration = 0\<rparr>]"
    by code_simp
  have f: "Fetch notFoundEnv asciiTables degradedCache Map.empty
        ''https://lrclib.net/api/get'' (Some exampleTrack)
      = fetchLoop notFoundEnv asciiTables exampleTrack degradedCache Map.empty [] 0 None
          (uniqueStrategies asciiTables exampleTrack)"
    using example_normalized Get_degraded_miss
    by (intro Fetch_to_loop [where e = ErrCacheMiss])
       (auto simp: notFoundEnv_def dest: normalize_nonempty)
  have r: "snd (snd (snd (fetchLoop notFoundEnv asciiTables exampleTrack degradedCache Map.empty
        [] 0 None
        [\<lparr>s_artist = ''A'', s_title = ''T'', s_album = ''Al'', s_duration = 200\<rparr>,
         \<lparr>s_artist = ''A'', s_title = ''T'', s_album = [], s_duration = 200\<rparr>,
         \<lparr>s_artist = ''A'', s_title = ''T'', s_album = [], s_duration = 0\<rparr>,
         \<lparr>s_artist = ''a'', s_title = ''t'', s_album = [], s_duration = 0\<rparr>]))) =
     [[(''artist_name'', [''A'']), (''track_name'', [''T'']), (''album_name'', [''Al'']),
       (''duration'', [''200''])],
      [(''artist_name'', [''A'']), (''track_name'', [''T'']), (''album_name'', [''Al'']),
       (''duration'', [''200''])],
      [(''artist_name'', [''A'']), (''track_name'', [''T'']), (''album_name'', [''Al'']),
       (''duration'', [''200''])],
      [(''artist_name'', [''a'']), (''track_name'', [''t'']), (''album_name'', [''Al'']),
       (''duration'', [''200''])]]"
    by code_simp
  have m: "map (buildQuery [])
        [\<lparr>s_artist = ''A'', s_title = ''T'', s_album = ''Al'', s_duration = 200\<rparr>,
         \<lparr>s_artist = ''A'', s_title = ''T'', s_album = [], s_duration = 200\<rparr>,
         \<lparr>s_artist = ''A'', s_title = ''T'', s_album = [], s_duration = 0\<rparr>,
         \<lparr>s_artist = ''a'', s_title = ''t'', s_album = [], s_duration = 0\<rparr>] =
     [[(''artist_name'', [''A'']), (''track_name'', [''T'']), (''album_name'', [''Al'']),
       (''duration'', [''200''])],
      [(''artist_name'', [''A'']), (''track_name'', [''T'']), (''duration'', [''200''])],
      [(''artist_name'', [''A'']), (''track_name'', [''T''])],
      [(''artist_name'', [''a'']), (''track_name'', [''t''])]]"
    by code_simp
  show ?thesis unfolding f u using r m by simp
qed


end
